theory Spec2Isabelle
  imports Complex_Main "HOL-Library.Sublist"
begin

section \<open>JavaScript values and strings\<close>

text \<open>
  A JSON value as \<open>JSON.parse\<close> yields it. An object is an association list whose first
  binding of a key is the property's value; a JavaScript value that may be \<open>undefined\<close>
  is a \<open>json option\<close>, with \<open>None\<close> for \<open>undefined\<close>. Numbers are rationals: no property
  below depends on floating-point rounding.
\<close>

datatype json =
    JNull
  | JBool bool
  | JNum rat
  | JStr string
  | JArr "json list"
  | JObj "(string \<times> json) list"

text \<open>Property access \<open>obj[key]\<close> on a value read from JSON.\<close>

fun obj_get :: "json \<Rightarrow> string \<Rightarrow> json option" where
  "obj_get (JObj kvs) k = map_of kvs k"
| "obj_get _ k = None"

text \<open>\<open>Array.prototype.join\<close> on an array of strings.\<close>

fun join :: "string \<Rightarrow> string list \<Rightarrow> string" where
  "join sep [] = []"
| "join sep [x] = x"
| "join sep (x # y # ys) = x @ sep @ join sep (y # ys)"

text \<open>
  Characters are code units below 256; a code unit above 255 in a literal of the source is
  cut to its low byte. White space is what \<open>\s\<close> and \<open>trim\<close> accept in
  that range (tab, line feed, vertical tab, form feed, carriage return, space, no-break
  space); a line terminator is what \<open>.\<close> refuses.
\<close>

definition is_js_space :: "char \<Rightarrow> bool" where
  "is_js_space c \<longleftrightarrow>
     c \<in> {CHR 0x09, CHR 0x0A, CHR 0x0B, CHR 0x0C, CHR 0x0D, CHR 0x20, CHR 0xA0}"

definition is_line_terminator :: "char \<Rightarrow> bool" where
  "is_line_terminator c \<longleftrightarrow> c \<in> {CHR 0x0A, CHR 0x0D}"

definition trim :: "string \<Rightarrow> string" where
  "trim s = rev (dropWhile is_js_space (rev (dropWhile is_js_space s)))"

definition ascii_lower :: "char \<Rightarrow> char" where
  "ascii_lower c =
     (case map_of (zip ''ABCDEFGHIJKLMNOPQRSTUVWXYZ'' ''abcdefghijklmnopqrstuvwxyz'') c of
        Some l \<Rightarrow> l
      | None \<Rightarrow> c)"

definition toLowerCase :: "string \<Rightarrow> string" where
  "toLowerCase s = map ascii_lower s"

text \<open>Decimal notation of an integer, as a template literal prints it.\<close>

definition digit_char :: "nat \<Rightarrow> char" where
  "digit_char d = ''0123456789'' ! d"

fun show_nat :: "nat \<Rightarrow> string" where
  "show_nat n = (if n < 10 then [] else show_nat (n div 10)) @ [digit_char (n mod 10)]"

declare show_nat.simps [simp del]

definition show_int :: "int \<Rightarrow> string" where
  "show_int i = (if 0 \<le> i then show_nat (nat i) else CHR ''-'' # show_nat (nat (- i)))"

section \<open>The schema validator (zod)\<close>

text \<open>
  The argument schemas are declared with zod, a library outside the repository; like the
  built-in functions of JavaScript above, it is modelled by what it does. The constructors
  below are the ones the five tool schemas use. \<open>zparse\<close> follows zod 3, which agrees
  with the validator contract of the specification (section 4.2): every field of an object
  and every element of an array is parsed and the issues of all of them are collected, in
  schema order, each with its path and the message of the default error map; a missing
  field takes its default where one is declared; unknown keys are stripped.
\<close>

datatype zod_check = Min int | Max int

datatype zod_schema =
    ZString
  | ZNumber "zod_check list"
  | ZBoolean
  | ZEnum "string list"
  | ZArray zod_schema
  | ZObject "(string \<times> zod_schema) list"
  | ZOptional zod_schema
  | ZDefault zod_schema json

datatype path_seg = Key string | Index nat

datatype zod_issue = ZodIssue (path: "path_seg list") (message: string)

fun getParsedType :: "json option \<Rightarrow> string" where
  "getParsedType None = ''undefined''"
| "getParsedType (Some JNull) = ''null''"
| "getParsedType (Some (JBool _)) = ''boolean''"
| "getParsedType (Some (JNum _)) = ''number''"
| "getParsedType (Some (JStr _)) = ''string''"
| "getParsedType (Some (JArr _)) = ''array''"
| "getParsedType (Some (JObj _)) = ''object''"

definition invalid_type :: "path_seg list \<Rightarrow> string \<Rightarrow> json option \<Rightarrow> zod_issue" where
  "invalid_type p expected v =
     ZodIssue p (if v = None then ''Required''
                 else ''Expected '' @ expected @ '', received '' @ getParsedType v)"

definition quoted :: "string \<Rightarrow> string" where
  "quoted s = [CHR 0x27] @ s @ [CHR 0x27]"

definition joinValues :: "string list \<Rightarrow> string" where
  "joinValues vals = join '' | '' (map quoted vals)"

definition invalid_enum_value :: "path_seg list \<Rightarrow> string list \<Rightarrow> string \<Rightarrow> zod_issue" where
  "invalid_enum_value p vals received =
     ZodIssue p (''Invalid enum value. Expected '' @ joinValues vals @ '', received '' @ quoted received)"

fun check_issues :: "path_seg list \<Rightarrow> rat \<Rightarrow> zod_check \<Rightarrow> zod_issue list" where
  "check_issues p n (Min lo) =
     (if n < of_int lo
      then [ZodIssue p (''Number must be greater than or equal to '' @ show_int lo)]
      else [])"
| "check_issues p n (Max hi) =
     (if of_int hi < n
      then [ZodIssue p (''Number must be less than or equal to '' @ show_int hi)]
      else [])"

text \<open>
  \<open>zparse s p v\<close> parses the value \<open>v\<close> found at path \<open>p\<close>: the issues, and the output
  value, which is read only when there is no issue at all.
\<close>

fun zparse :: "zod_schema \<Rightarrow> path_seg list \<Rightarrow> json option \<Rightarrow> zod_issue list \<times> json option"
  and zparse_fields ::
    "(string \<times> zod_schema) list \<Rightarrow> path_seg list \<Rightarrow> (string \<times> json) list
      \<Rightarrow> zod_issue list \<times> (string \<times> json) list"
  and zparse_items ::
    "zod_schema \<Rightarrow> path_seg list \<Rightarrow> nat \<Rightarrow> json list \<Rightarrow> zod_issue list \<times> json list"
where
  "zparse ZString p v =
     (case v of Some (JStr s) \<Rightarrow> ([], v) | _ \<Rightarrow> ([invalid_type p ''string'' v], None))"
| "zparse (ZNumber checks) p v =
     (case v of Some (JNum n) \<Rightarrow> (concat (map (check_issues p n) checks), v)
      | _ \<Rightarrow> ([invalid_type p ''number'' v], None))"
| "zparse ZBoolean p v =
     (case v of Some (JBool b) \<Rightarrow> ([], v) | _ \<Rightarrow> ([invalid_type p ''boolean'' v], None))"
| "zparse (ZEnum vals) p v =
     (case v of
        Some (JStr s) \<Rightarrow> if s \<in> set vals then ([], v) else ([invalid_enum_value p vals s], None)
      | _ \<Rightarrow> ([invalid_type p (joinValues vals) v], None))"
| "zparse (ZArray item) p v =
     (case v of
        Some (JArr xs) \<Rightarrow> (case zparse_items item p 0 xs of (is, ys) \<Rightarrow> (is, Some (JArr ys)))
      | _ \<Rightarrow> ([invalid_type p ''array'' v], None))"
| "zparse (ZObject shape) p v =
     (case v of
        Some (JObj kvs) \<Rightarrow> (case zparse_fields shape p kvs of (is, out) \<Rightarrow> (is, Some (JObj out)))
      | _ \<Rightarrow> ([invalid_type p ''object'' v], None))"
| "zparse (ZOptional inner) p v = (case v of None \<Rightarrow> ([], None) | _ \<Rightarrow> zparse inner p v)"
| "zparse (ZDefault inner d) p v = (case v of None \<Rightarrow> zparse inner p (Some d) | _ \<Rightarrow> zparse inner p v)"
| "zparse_fields [] p kvs = ([], [])"
| "zparse_fields ((k, s) # shape) p kvs =
     (case zparse s (p @ [Key k]) (map_of kvs k) of (is, out) \<Rightarrow>
        (case zparse_fields shape p kvs of (is', outs) \<Rightarrow>
           (is @ is', (case out of None \<Rightarrow> outs | Some j \<Rightarrow> (k, j) # outs))))"
| "zparse_items item p i [] = ([], [])"
| "zparse_items item p i (x # xs) =
     (case zparse item (p @ [Index i]) (Some x) of (is, out) \<Rightarrow>
        (case zparse_items item p (Suc i) xs of (is', outs) \<Rightarrow>
           (is @ is', (case out of None \<Rightarrow> outs | Some j \<Rightarrow> j # outs))))"

text \<open>\<open>schema.parse(v)\<close>: the output, or a \<open>ZodError\<close> carrying the issues.\<close>

definition zod_parse :: "zod_schema \<Rightarrow> json option \<Rightarrow> zod_issue list + json option" where
  "zod_parse schema v = (case zparse schema [] v of ([], out) \<Rightarrow> Inr out | (is, _) \<Rightarrow> Inl is)"

section \<open>Shared types (lib/types.ts)\<close>

definition ProjectType :: "string list" where
  "ProjectType = [''rust'', ''cpp'', ''java'', ''python'', ''go'', ''mixed'']"

definition DocsTopic :: "string list" where
  "DocsTopic = [''setup'', ''migration'', ''optimization'', ''troubleshooting'', ''api'']"

definition Platform :: "string list" where
  "Platform = [''kubernetes'', ''docker'', ''aws'', ''gcp'', ''azure'']"

definition Scale :: "string list" where
  "Scale = [''small'', ''medium'', ''large'', ''enterprise'']"

definition OptimizationTarget :: "string list" where
  "OptimizationTarget = [''speed'', ''cost'', ''balanced'']"

record NativelinkConfig =
  apiKey :: "string option"
  anthropicKey :: "string option"
  geminiKey :: "string option"
  nativelinkUrl :: "string option"
  debug :: "bool option"

text \<open>Typed reads of the fields of a validated parameter object.\<close>

definition field_string :: "json option \<Rightarrow> string \<Rightarrow> string option" where
  "field_string params k =
     (case params of Some obj \<Rightarrow> (case obj_get obj k of Some (JStr s) \<Rightarrow> Some s | _ \<Rightarrow> None)
      | None \<Rightarrow> None)"

definition field_number :: "json option \<Rightarrow> string \<Rightarrow> rat option" where
  "field_number params k =
     (case params of Some obj \<Rightarrow> (case obj_get obj k of Some (JNum n) \<Rightarrow> Some n | _ \<Rightarrow> None)
      | None \<Rightarrow> None)"

fun json_strings :: "json list \<Rightarrow> string list" where
  "json_strings [] = []"
| "json_strings (JStr s # xs) = s # json_strings xs"
| "json_strings (_ # xs) = json_strings xs"

definition field_strings :: "json option \<Rightarrow> string \<Rightarrow> string list option" where
  "field_strings params k =
     (case params of Some obj \<Rightarrow> (case obj_get obj k of Some (JArr xs) \<Rightarrow> Some (json_strings xs) | _ \<Rightarrow> None)
      | None \<Rightarrow> None)"

section \<open>Utilities (lib/utils.ts)\<close>

definition formatBazelrc :: "string list \<Rightarrow> string" where
  "formatBazelrc lines = join [CHR 0x0A] (filter (\<lambda>l. l \<noteq> []) (map trim lines))"

definition truncation_marker :: string where
  "truncation_marker = [CHR 0x0A, CHR 0x0A] @ ''[Response truncated for length]''"

text \<open>
  \<open>text.substring(0, maxChars)\<close> rounds \<open>maxChars\<close> towards zero and clamps it to the
  length of the text.
\<close>

definition truncateResponse :: "string \<Rightarrow> rat \<Rightarrow> string" where
  "truncateResponse text maxTokens =
     (let avgCharsPerToken = 4;
          maxChars = maxTokens * avgCharsPerToken
      in if of_nat (length text) \<le> maxChars then text
         else take (nat \<lfloor>maxChars\<rfloor>) text @ truncation_marker)"

text \<open>
  The headers of a request: a value is a string or an array of strings, and a missing
  header reads as \<open>undefined\<close>.
\<close>

datatype header_value = Single string | Multiple "string list"

type_synonym headers = "string \<Rightarrow> header_value option"

definition headerKeys :: "string list" where
  "headerKeys =
     [''authorization'', ''Authorization'', ''nativelink-api-key'', ''Nativelink-API-Key'',
      ''NATIVELINK_API_KEY'', ''x-api-key'', ''X-API-Key'', ''X_API_KEY'']"

text \<open>\<open>if (value)\<close>: the empty string is falsy, an array never is.\<close>

fun truthy_header :: "header_value \<Rightarrow> bool" where
  "truthy_header (Single s) = (s \<noteq> [])"
| "truthy_header (Multiple xs) = True"

text \<open>\<open>Array.isArray(value) ? value[0] : value\<close>; the first element of an empty array is \<open>undefined\<close>.\<close>

fun first_header_value :: "header_value \<Rightarrow> string option" where
  "first_header_value (Single s) = Some s"
| "first_header_value (Multiple []) = None"
| "first_header_value (Multiple (x # xs)) = Some x"

text \<open>
  The match of \<open>/^Bearer\s+(.+)$/i\<close>. After the word, \<open>\s+\<close> is greedy: it first takes all
  the white space there is and gives characters back one at a time, until what is left is
  not empty and has no line terminator; that rest is the captured group.
\<close>

fun bearer_backtrack :: "nat \<Rightarrow> string \<Rightarrow> string option" where
  "bearer_backtrack 0 rest = None"
| "bearer_backtrack (Suc k) rest =
     (let captured = drop (Suc k) rest
      in if captured \<noteq> [] \<and> \<not> list_ex is_line_terminator captured then Some captured
         else bearer_backtrack k rest)"

definition bearer_match :: "string \<Rightarrow> string option" where
  "bearer_match s =
     (if toLowerCase (take 6 s) = ''bearer''
      then bearer_backtrack (length (takeWhile is_js_space (drop 6 s))) (drop 6 s)
      else None)"

text \<open>
  What the code throws: a \<open>ZodError\<close> with its issues, an \<open>McpError\<close> with its code and
  the message given to its constructor, or another error (a \<open>TypeError\<close> is one) with its
  message.
\<close>

datatype error_code = InvalidParams | MethodNotFound | InternalError

datatype thrown = ZodError "zod_issue list" | McpError error_code string | Error string

text \<open>The loop of \<open>parseApiKey\<close> over the header names still to try.\<close>

fun parseApiKey_loop :: "headers \<Rightarrow> string list \<Rightarrow> thrown + string option" where
  "parseApiKey_loop hs [] = Inr None"
| "parseApiKey_loop hs (key # keys) =
     (case hs key of
        None \<Rightarrow> parseApiKey_loop hs keys
      | Some v \<Rightarrow>
          if truthy_header v then
            (let headerValue = first_header_value v
             in if toLowerCase key = ''authorization'' then
                  (case headerValue of
                     None \<Rightarrow> Inl (Error ''Cannot read properties of undefined (reading 'match')'')
                   | Some hv \<Rightarrow>
                       (case bearer_match hv of
                          Some token \<Rightarrow> Inr (Some token)
                        | None \<Rightarrow> parseApiKey_loop hs keys))
                else Inr headerValue)
          else parseApiKey_loop hs keys)"

definition parseApiKey :: "headers \<Rightarrow> thrown + string option" where
  "parseApiKey hs = parseApiKey_loop hs headerKeys"

text \<open>
  A header name that the loop passes over: the header is absent, or its value is the empty
  string, or the name is an \<open>authorization\<close> and the first value is not of the Bearer form.
\<close>

definition header_skipped :: "headers \<Rightarrow> string \<Rightarrow> bool" where
  "header_skipped hs key \<longleftrightarrow>
     hs key = None \<or> hs key = Some (Single [])
     \<or> (toLowerCase key = ''authorization''
         \<and> (\<exists>v s. hs key = Some v \<and> first_header_value v = Some s \<and> bearer_match s = None))"

section \<open>The build configuration tool (tools/config.ts)\<close>

definition GetBazelConfigSchema :: zod_schema where
  "GetBazelConfigSchema =
     ZObject [(''projectType'', ZEnum ProjectType),
              (''nativelinkUrl'', ZOptional ZString),
              (''features'', ZOptional (ZArray ZString))]"

record GetBazelConfigParams =
  projectType :: string
  config_nativelinkUrl :: "string option"
  config_features :: "string list option"

text \<open>The object \<open>GetBazelConfigSchema.parse\<close> returns, read at its inferred type.\<close>

definition as_GetBazelConfigParams :: "json option \<Rightarrow> GetBazelConfigParams" where
  "as_GetBazelConfigParams out =
     \<lparr> projectType = (case field_string out ''projectType'' of Some s \<Rightarrow> s | None \<Rightarrow> ''undefined''),
       config_nativelinkUrl = field_string out ''nativelinkUrl'',
       config_features = field_strings out ''features'' \<rparr>"

text \<open>The clock read by \<open>new Date()\<close>, in UTC, and \<open>toISOString\<close>.\<close>

record timestamp =
  ts_year :: nat
  ts_month :: nat
  ts_day :: nat
  ts_hours :: nat
  ts_minutes :: nat
  ts_seconds :: nat
  ts_milliseconds :: nat

definition padStart :: "nat \<Rightarrow> string \<Rightarrow> string" where
  "padStart n s = replicate (n - length s) (CHR ''0'') @ s"

definition toISOString :: "timestamp \<Rightarrow> string" where
  "toISOString t =
     (if ts_year t \<le> 9999 then padStart 4 (show_nat (ts_year t))
      else ''+'' @ padStart 6 (show_nat (ts_year t)))
     @ ''-'' @ padStart 2 (show_nat (ts_month t))
     @ ''-'' @ padStart 2 (show_nat (ts_day t))
     @ ''T'' @ padStart 2 (show_nat (ts_hours t))
     @ '':'' @ padStart 2 (show_nat (ts_minutes t))
     @ '':'' @ padStart 2 (show_nat (ts_seconds t))
     @ ''.'' @ padStart 3 (show_nat (ts_milliseconds t))
     @ ''Z''"

definition project_configs :: "(string \<times> string list) list" where
  "project_configs =
     [(''rust'',
         [''build --@rules_rust//rust/settings:pipelined_compilation=True'',
          ''build --@rules_rust//rust/settings:rustfmt_toml=//:rustfmt.toml'']),
      (''cpp'',
         [''build --cxxopt=-std=c++17'',
          ''build --host_cxxopt=-std=c++17'',
          ''build --copt=-fPIC'']),
      (''java'',
         [''build --java_language_version=11'',
          ''build --java_runtime_version=remotejdk_11'',
          ''build --tool_java_language_version=11'',
          ''build --tool_java_runtime_version=remotejdk_11'']),
      (''python'',
         [''build --action_env=PYTHONDONTWRITEBYTECODE=1'',
          ''test --test_env=PYTHONDONTWRITEBYTECODE=1'']),
      (''go'',
         [''build --@io_bazel_rules_go//go/config:race=false'',
          ''test --@io_bazel_rules_go//go/config:race=true'']),
      (''mixed'',
         [''# Configure based on your primary language'',
          ''# See language-specific configurations above''])]"

definition getProjectSpecificConfig :: "string \<Rightarrow> string list" where
  "getProjectSpecificConfig pt = (case map_of project_configs pt of Some ls \<Rightarrow> ls | None \<Rightarrow> [])"

definition generateBazelConfig_lines :: "GetBazelConfigParams \<Rightarrow> timestamp \<Rightarrow> string list" where
  "generateBazelConfig_lines params date =
     (let features = (case config_features params of Some fs \<Rightarrow> fs
                      | None \<Rightarrow> [''remote_cache'', ''remote_execution'', ''bes'']);
          projectSpecific = getProjectSpecificConfig (projectType params)
      in [''# Nativelink Cloud Configuration'',
          ''# Generated for '' @ projectType params @ '' project'',
          ''# '' @ toISOString date,
          [],
          ''# IMPORTANT: Get your personalized configuration from https://app.nativelink.com'',
          ''# The configuration below is a template - replace with your actual values from the dashboard'',
          [],
          ''# Remote Cache Configuration'']
         @ (if ''remote_cache'' \<in> set features then
              [''build --remote_cache=grpcs://cas-tracemachina-shared.build-faster.nativelink.net'',
               ''build --remote_header=x-nativelink-api-key=YOUR_API_KEY_FROM_APP_NATIVELINK_COM'',
               []]
            else [])
         @ (if ''bes'' \<in> set features then
              [''# Build Event Service (BES) Configuration'',
               ''build --bes_backend=grpcs://bes-tracemachina-shared.build-faster.nativelink.net'',
               ''build --bes_header=x-nativelink-api-key=YOUR_BES_API_KEY_FROM_APP_NATIVELINK_COM'',
               ''build --bes_results_url=https://app.nativelink.com/a/YOUR_BUILD_ID/build'',
               []]
            else [])
         @ (if ''remote_execution'' \<in> set features then
              [''# Remote Execution Configuration'',
               ''build --remote_executor=grpcs://scheduler-tracemachina-shared.build-faster.nativelink.net:443'',
               ''build --remote_timeout=600'',
               ''build --jobs=200'',
               ''build --remote_download_outputs=minimal'',
               []]
            else [])
         @ [''# Performance Optimizations'',
            ''build --experimental_remote_cache_compression'',
            ''build --experimental_remote_cache_async'',
            ''build --remote_max_connections=200'',
            []]
         @ (if projectSpecific \<noteq> [] then
              [''# '' @ projectType params @ '' Specific Configuration''] @ projectSpecific @ [[]]
            else [])
         @ [''# Build Reproducibility'',
            ''build --incompatible_strict_action_env'',
            ''build --action_env=BAZEL_DO_NOT_DETECT_CPP_TOOLCHAIN=1'',
            []]
         @ (if ''metrics'' \<in> set features then
              [''# Metrics and Monitoring'',
               ''build --experimental_remote_grpc_log=grpc.log'',
               ''build --generate_json_trace_profile'',
               ''build --experimental_profile_include_primary_output'',
               []]
            else [])
         @ [''# Test Configuration'',
            ''test --test_output=errors'',
            ''test --test_summary=detailed'',
            []])"

definition generateBazelConfig :: "GetBazelConfigParams \<Rightarrow> timestamp \<Rightarrow> string" where
  "generateBazelConfig params date = formatBazelrc (generateBazelConfig_lines params date)"

section \<open>The documentation client (lib/api.ts)\<close>

text \<open>
  The request \<open>fetch\<close> sends, and what comes back. The query is the list of pairs given to
  \<open>URLSearchParams\<close>. \<open>FetchRejected\<close> is a \<open>fetch\<close> that rejects (no connection, a
  timeout). The body of a response is \<open>BodyUnreadable\<close> when \<open>response.json()\<close> rejects, and
  otherwise the JSON value it yields: the source casts that value to \<open>{ content: string }\<close>
  without looking at it.
\<close>

record fetch_request =
  fetch_base :: string
  fetch_path :: string
  fetch_query :: "(string \<times> string) list"
  fetch_authorization :: string

datatype fetch_body = BodyUnreadable | BodyJson json

datatype fetch_outcome =
    FetchRejected
  | FetchResponse (status: nat) (statusText: string) (body: fetch_body)

definition response_ok :: "nat \<Rightarrow> bool" where
  "response_ok st \<longleftrightarrow> 200 \<le> st \<and> st \<le> 299"

text \<open>
  What a call depends on beside its arguments: the network, the clock, the handlers of the
  three tools whose text no statement below is about, and one comparison of the runtime.
  The three handlers are parameters: each takes the validated parameters and returns its
  text (\<open>Inr\<close>) or throws an error with a message (\<open>Inl\<close>). \<open>coerced_le v x\<close> is the result of
  \<open>v <= x\<close> for a string or an array \<open>v\<close>, which JavaScript decides by converting \<open>v\<close> to a
  number through its text; it is a parameter too.
\<close>

record env =
  fetch :: "fetch_request \<Rightarrow> fetch_outcome"
  clock :: timestamp
  coerced_le :: "json \<Rightarrow> rat \<Rightarrow> bool"
  analyzeBuildPerformance :: "json option \<Rightarrow> NativelinkConfig \<Rightarrow> string + string"
  generateDeploymentConfig :: "json option \<Rightarrow> string + string"
  setupWatchAndBuild :: "json option \<Rightarrow> string + string"

definition baseUrl :: "NativelinkConfig \<Rightarrow> string" where
  "baseUrl config =
     (case nativelinkUrl config of
        None \<Rightarrow> ''https://api.nativelink.com''
      | Some u \<Rightarrow> if u = [] then ''https://api.nativelink.com'' else u)"

definition docs_request :: "NativelinkConfig \<Rightarrow> string \<Rightarrow> string option \<Rightarrow> fetch_request" where
  "docs_request config topic context =
     \<lparr> fetch_base = baseUrl config,
       fetch_path = ''/docs'',
       fetch_query = (''topic'', topic) #
         (case context of None \<Rightarrow> [] | Some c \<Rightarrow> if c = [] then [] else [(''context'', c)]),
       fetch_authorization =
         ''Bearer '' @ (case apiKey config of None \<Rightarrow> ''undefined'' | Some k \<Rightarrow> k) \<rparr>"

text \<open>
  The offline documentation, as the source file holds it. Each of the four feature lines of
  the setup guide has three or four code units outside ASCII: U+201A U+00F6 U+00B0 in the
  first, U+F8FF U+00FC followed by U+00F6 U+00C4, U+00EC U+00E4 and U+00EE U+00ED in the
  others. U+201A and U+F8FF lie above 255 and are cut to \<open>0x1A\<close> and \<open>0xFF\<close>; every other
  code unit is the source's, and so is every length.
\<close>

definition offline_setup :: string where
  \<open>offline_setup = join [CHR 0x0A]
    [''# Nativelink Cloud Setup Guide'',
     [],
     ''## Quick Start with Nativelink Cloud'',
     [],
     ''1. **Sign up at [app.nativelink.com](https://app.nativelink.com)**'',
     ''   - Create your free account'',
     ''   - Get your API keys and personalized configuration'',
     [],
     ''2. **Get your .bazelrc configuration**:'',
     ''   After signing up, you'll receive a personalized configuration like:'',
     ''   ```'',
     ''   build --remote_cache=grpcs://cas-tracemachina-shared.build-faster.nativelink.net'',
     ''   build --remote_header=x-nativelink-api-key=YOUR_API_KEY'',
     ''   build --bes_backend=grpcs://bes-tracemachina-shared.build-faster.nativelink.net'',
     ''   build --bes_header=x-nativelink-api-key=YOUR_BES_API_KEY'',
     ''   build --bes_results_url=https://app.nativelink.com/a/YOUR_BUILD_ID/build'',
     ''   build --remote_timeout=600'',
     ''   build --remote_executor=grpcs://scheduler-tracemachina-shared.build-faster.nativelink.net:443'',
     ''   ```'',
     [],
     ''3. **Add to your project**:'',
     ''   - Append the configuration to your `.bazelrc`'',
     ''   - Or create a `.bazelrc.user` file (gitignored)'',
     [],
     ''4. **Run your build**:'',
     ''   ```bash'',
     ''   bazel build //...'',
     ''   ```'',
     [],
     ''   Your builds will now use Nativelink Cloud for caching and remote execution!'',
     [],
     ''## Features'',
     ''- '' @ [CHR 0x1A, CHR 0xF6, CHR 0xB0] @ '' Instant cache hits across your team'',
     ''- '' @ [CHR 0xFF, CHR 0xFC, CHR 0xF6, CHR 0xC4] @ '' Remote execution on powerful cloud machines'',
     ''- '' @ [CHR 0xFF, CHR 0xFC, CHR 0xEC, CHR 0xE4] @ '' Build analytics and insights at app.nativelink.com'',
     ''- '' @ [CHR 0xFF, CHR 0xFC, CHR 0xEE, CHR 0xED] @ '' Secure, isolated build environments'']\<close>

definition offline_migration :: string where
  \<open>offline_migration = join [CHR 0x0A]
    [''# Migration to Nativelink Cloud'',
     [],
     ''## From Local Builds'',
     [],
     ''1. **Sign up at [app.nativelink.com](https://app.nativelink.com)**'',
     [],
     ''2. **Baseline your current performance**:'',
     ''   ```bash'',
     ''   bazel build --profile=baseline.prof //...'',
     ''   ```'',
     [],
     ''3. **Add your Nativelink Cloud configuration**:'',
     ''   Get your personalized config from the dashboard and add to `.bazelrc`:'',
     ''   ```'',
     ''   # From app.nativelink.com dashboard'',
     ''   build --remote_cache=grpcs://cas-tracemachina-shared.build-faster.nativelink.net'',
     ''   build --remote_header=x-nativelink-api-key=YOUR_API_KEY'',
     ''   build --bes_backend=grpcs://bes-tracemachina-shared.build-faster.nativelink.net'',
     ''   build --bes_header=x-nativelink-api-key=YOUR_BES_API_KEY'',
     ''   ```'',
     [],
     ''4. **Test with read-only cache first**:'',
     ''   ```'',
     ''   build --remote_upload_local_results=false'',
     ''   ```'',
     [],
     ''5. **Enable full caching and remote execution**:'',
     ''   ```'',
     ''   build --remote_upload_local_results=true'',
     ''   build --remote_executor=grpcs://scheduler-tracemachina-shared.build-faster.nativelink.net:443'',
     ''   ```'',
     [],
     ''## From Other Remote Caches'',
     [],
     ''Nativelink Cloud is compatible with standard Remote Execution API:'',
     ''1. Replace your cache endpoints with Nativelink Cloud URLs'',
     ''2. Update authentication to use Nativelink API keys'',
     ''3. No changes needed to BUILD files or rules'']\<close>

definition offline_optimization :: string where
  \<open>offline_optimization = join [CHR 0x0A]
    [''# Nativelink Performance Optimization'',
     [],
     ''## Cache Optimization'',
     [],
     ''1. **Increase cache hit rate**:'',
     ''   - Use `--experimental_strict_action_env` for reproducible builds'',
     ''   - Set `--incompatible_strict_action_env=true`'',
     ''   - Configure proper toolchains'',
     [],
     ''2. **Network optimization**:'',
     ''   ```'',
     ''   build --remote_timeout=60'',
     ''   build --remote_retries=3'',
     ''   build --remote_max_connections=200'',
     ''   ```'',
     [],
     ''3. **Parallel execution**:'',
     ''   ```'',
     ''   build --jobs=auto'',
     ''   build --remote_executor=grpc://executor.nativelink.com:443'',
     ''   ```'',
     [],
     ''## Cost Optimization'',
     [],
     ''- Use `--remote_download_minimal` to reduce bandwidth'',
     ''- Enable compression: `--experimental_remote_cache_compression`'',
     ''- Set appropriate `--remote_instance_name` for isolation'']\<close>

definition offline_troubleshooting :: string where
  \<open>offline_troubleshooting = join [CHR 0x0A]
    [''# Nativelink Troubleshooting'',
     [],
     ''## Common Issues'',
     [],
     ''### Authentication Errors'',
     ''- Verify API key is set correctly'',
     ''- Check network connectivity'',
     ''- Ensure firewall allows gRPC traffic (port 443/50051)'',
     [],
     ''### Cache Misses'',
     ''- Check for non-hermetic actions'',
     ''- Verify toolchain configuration'',
     ''- Review `--execution_log_json_file` output'',
     [],
     ''### Slow Builds'',
     ''- Monitor with `--experimental_remote_grpc_log`'',
     ''- Check network latency to cache'',
     ''- Optimize large artifact handling'',
     [],
     ''### Debug Commands'',
     ''```bash'',
     ''# Enable verbose logging'',
     ''bazel build --remote_grpc_log=grpc.log //...'',
     [],
     ''# Profile build performance'',
     ''bazel build --profile=profile.json --generate_json_trace_profile //...'',
     [],
     ''# Check cache status'',
     ''grpcurl -H "x-nativelink-api-key: YOUR_KEY" cache.nativelink.com:443 list'',
     ''```'']\<close>

definition offline_api :: string where
  \<open>offline_api = join [CHR 0x0A]
    [''# Nativelink Cloud API Reference'',
     [],
     ''## Getting Your Configuration'',
     [],
     ''1. **Sign up at [app.nativelink.com](https://app.nativelink.com)**'',
     ''2. **Navigate to Dashboard > API Keys**'',
     ''3. **Copy your personalized .bazelrc configuration**'',
     [],
     ''## Your Personalized Configuration'',
     [],
     ''Your configuration from app.nativelink.com includes:'',
     [],
     ''### Cache Service'',
     ''```'',
     ''build --remote_cache=grpcs://cas-tracemachina-shared.build-faster.nativelink.net'',
     ''build --remote_header=x-nativelink-api-key=YOUR_CACHE_API_KEY'',
     ''```'',
     [],
     ''### Build Event Service (BES)'',
     ''```'',
     ''build --bes_backend=grpcs://bes-tracemachina-shared.build-faster.nativelink.net'',
     ''build --bes_header=x-nativelink-api-key=YOUR_BES_API_KEY'',
     ''build --bes_results_url=https://app.nativelink.com/a/YOUR_BUILD_ID/build'',
     ''```'',
     [],
     ''### Remote Execution'',
     ''```'',
     ''build --remote_executor=grpcs://scheduler-tracemachina-shared.build-faster.nativelink.net:443'',
     ''build --remote_timeout=600'',
     ''```'',
     [],
     ''## Optional Optimizations'',
     [],
     ''Add these for better performance:'',
     ''```'',
     ''build --remote_download_minimal'',
     ''build --experimental_remote_cache_compression'',
     ''build --jobs=200'',
     ''```'',
     [],
     ''## Monitoring'',
     [],
     ''View your builds at: https://app.nativelink.com/builds'']\<close>

definition offline_docs :: "(string \<times> string) list" where
  "offline_docs =
     [(''setup'', offline_setup),
      (''migration'', offline_migration),
      (''optimization'', offline_optimization),
      (''troubleshooting'', offline_troubleshooting),
      (''api'', offline_api)]"

text \<open>\<open>docs[topic] || docs.setup\<close>, for a topic that is not a property of every object.\<close>

definition getOfflineDocumentation :: "string \<Rightarrow> string option \<Rightarrow> string" where
  "getOfflineDocumentation topic context =
     (case map_of offline_docs topic of
        Some d \<Rightarrow> if d = [] then offline_setup else d
      | None \<Rightarrow> offline_setup)"

text \<open>
  The body of the \<open>try\<close> block of \<open>fetchDocumentation\<close>, and the function with its
  \<open>catch\<close>. What is returned is a JavaScript value: \<open>data.content\<close> is \<open>undefined\<close> when the
  body has no such property, and reading it from \<open>null\<close> throws.
\<close>

definition fetchDocumentation_try ::
  "(fetch_request \<Rightarrow> fetch_outcome) \<Rightarrow> NativelinkConfig \<Rightarrow> string \<Rightarrow> string option
     \<Rightarrow> thrown + json option"
where
  "fetchDocumentation_try f config topic context =
     (case f (docs_request config topic context) of
        FetchRejected \<Rightarrow> Inl (Error ''fetch failed'')
      | FetchResponse st text b \<Rightarrow>
          if \<not> response_ok st then
            (if st = 404 then Inr (Some (JStr (getOfflineDocumentation topic context)))
             else Inl (Error (''API request failed: '' @ text)))
          else (case b of
                  BodyUnreadable \<Rightarrow> Inl (Error ''invalid response body'')
                | BodyJson JNull \<Rightarrow> Inl (Error ''Cannot read properties of null (reading 'content')'')
                | BodyJson data \<Rightarrow> Inr (obj_get data ''content'')))"

definition fetchDocumentation ::
  "(fetch_request \<Rightarrow> fetch_outcome) \<Rightarrow> NativelinkConfig \<Rightarrow> string \<Rightarrow> string option
     \<Rightarrow> json option"
where
  "fetchDocumentation f config topic context =
     (case fetchDocumentation_try f config topic context of
        Inr docs \<Rightarrow> docs
      | Inl error \<Rightarrow> Some (JStr (getOfflineDocumentation topic context)))"

section \<open>The documentation tool (tools/docs.ts)\<close>

definition GetNativelinkDocsSchema :: zod_schema where
  "GetNativelinkDocsSchema =
     ZObject [(''topic'', ZEnum DocsTopic),
              (''context'', ZOptional ZString),
              (''maxTokens'', ZOptional (ZDefault (ZNumber [Min 1000]) (JNum 5000)))]"

record GetNativelinkDocsParams =
  topic :: string
  docs_context :: "string option"
  maxTokens :: "rat option"

definition as_GetNativelinkDocsParams :: "json option \<Rightarrow> GetNativelinkDocsParams" where
  "as_GetNativelinkDocsParams out =
     \<lparr> topic = (case field_string out ''topic'' of Some s \<Rightarrow> s | None \<Rightarrow> ''undefined''),
       docs_context = field_string out ''context'',
       maxTokens = field_number out ''maxTokens'' \<rparr>"

text \<open>\<open>params.maxTokens || 5000\<close>: \<open>undefined\<close> and \<open>0\<close> are falsy.\<close>

definition effective_maxTokens :: "GetNativelinkDocsParams \<Rightarrow> rat" where
  "effective_maxTokens params =
     (case maxTokens params of None \<Rightarrow> 5000 | Some n \<Rightarrow> if n = 0 then 5000 else n)"

text \<open>
  \<open>truncateResponse\<close> applied to whatever \<open>fetchDocumentation\<close> returned. Of \<open>undefined\<close> and
  \<open>null\<close> the length cannot be read. A number or a boolean has no length, the comparison
  with \<open>undefined\<close> is false, and \<open>text.substring\<close> is not a function. An array or an object
  is returned as it is when its \<open>length\<close> compares below the limit, and has no \<open>substring\<close>
  to call otherwise.
\<close>

fun length_le :: "(json \<Rightarrow> rat \<Rightarrow> bool) \<Rightarrow> json option \<Rightarrow> rat \<Rightarrow> bool" where
  "length_le cmp None x = False"
| "length_le cmp (Some JNull) x = (0 \<le> x)"
| "length_le cmp (Some (JBool b)) x = ((if b then 1 else 0) \<le> x)"
| "length_le cmp (Some (JNum n)) x = (n \<le> x)"
| "length_le cmp (Some (JObj kvs)) x = False"
| "length_le cmp (Some v) x = cmp v x"

fun truncateResponse_any :: "(json \<Rightarrow> rat \<Rightarrow> bool) \<Rightarrow> json option \<Rightarrow> rat \<Rightarrow> thrown + json" where
  "truncateResponse_any cmp None tokens =
     Inl (Error ''Cannot read properties of undefined (reading 'length')'')"
| "truncateResponse_any cmp (Some JNull) tokens =
     Inl (Error ''Cannot read properties of null (reading 'length')'')"
| "truncateResponse_any cmp (Some (JStr text)) tokens = Inr (JStr (truncateResponse text tokens))"
| "truncateResponse_any cmp (Some (JArr xs)) tokens =
     (if of_nat (length xs) \<le> tokens * 4 then Inr (JArr xs)
      else Inl (Error ''text.substring is not a function''))"
| "truncateResponse_any cmp (Some (JObj kvs)) tokens =
     (if length_le cmp (map_of kvs ''length'') (tokens * 4) then Inr (JObj kvs)
      else Inl (Error ''text.substring is not a function''))"
| "truncateResponse_any cmp (Some v) tokens = Inl (Error ''text.substring is not a function'')"

definition getNativelinkDocs :: "GetNativelinkDocsParams \<Rightarrow> env \<Rightarrow> NativelinkConfig \<Rightarrow> thrown + json" where
  "getNativelinkDocs params e config =
     (let maxTokens = effective_maxTokens params;
          docs = fetchDocumentation (fetch e) config (topic params) (docs_context params)
      in truncateResponse_any (coerced_le e) docs maxTokens)"

section \<open>The schemas of the other tools\<close>

definition AnalyzeBuildPerformanceSchema :: zod_schema where
  "AnalyzeBuildPerformanceSchema =
     ZObject [(''profileData'', ZOptional ZString),
              (''metrics'', ZOptional (ZObject
                 [(''totalTime'', ZOptional (ZNumber [])),
                  (''cacheHitRate'', ZOptional (ZNumber [Min 0, Max 1])),
                  (''remoteExecutionTime'', ZOptional (ZNumber [])),
                  (''localExecutionTime'', ZOptional (ZNumber [])),
                  (''networkTransferSize'', ZOptional (ZNumber []))])),
              (''targetOptimization'', ZOptional (ZEnum OptimizationTarget))]"

definition GenerateDeploymentConfigSchema :: zod_schema where
  "GenerateDeploymentConfigSchema =
     ZObject [(''platform'', ZEnum Platform),
              (''scale'', ZEnum Scale),
              (''features'', ZOptional (ZArray ZString))]"

definition SetupWatchAndBuildSchema :: zod_schema where
  "SetupWatchAndBuildSchema =
     ZObject [(''command'', ZDefault (ZEnum [''build'', ''test'', ''both'']) (JStr ''both'')),
              (''targets'', ZDefault ZString (JStr ''//...'')),
              (''watchPaths'', ZOptional (ZArray ZString)),
              (''excludePaths'', ZOptional (ZArray ZString)),
              (''debounceMs'', ZDefault (ZNumber [Min 100, Max 10000]) (JNum 1000)),
              (''useIbazel'', ZDefault ZBoolean (JBool False))]"

section \<open>The server (index.ts)\<close>

text \<open>
  The result of one \<open>tools/call\<close>: the text of \<open>content\<close>, or an error with its code and
  message. The stream binding throws the error as \<open>McpError(code, message)\<close> to the protocol
  library, which also reports any other error a handler throws as \<open>InternalError\<close>; the
  HTTP binding writes the error as \<open>{error: {code, message}}\<close>. \<open>SuccessValue\<close> is a success
  whose \<open>text\<close> is not a string: the documentation handler can return an array or an
  object that a response body held.
\<close>

datatype envelope = Success string | SuccessValue json | Failure error_code string

fun success_of :: "json \<Rightarrow> envelope" where
  "success_of (JStr text) = Success text"
| "success_of v = SuccessValue v"

definition returned_or_thrown :: "string + string \<Rightarrow> thrown + json" where
  "returned_or_thrown r = (case r of Inl msg \<Rightarrow> Inl (Error msg) | Inr text \<Rightarrow> Inr (JStr text))"

definition tool_names :: "string list" where
  "tool_names =
     [''get-bazel-config'', ''get-nativelink-docs'', ''analyze-build-performance'',
      ''generate-deployment-config'', ''setup-watch-and-build'']"

definition tool_schema :: "string \<Rightarrow> zod_schema option" where
  "tool_schema name =
     map_of [(''get-bazel-config'', GetBazelConfigSchema),
             (''get-nativelink-docs'', GetNativelinkDocsSchema),
             (''analyze-build-performance'', AnalyzeBuildPerformanceSchema),
             (''generate-deployment-config'', GenerateDeploymentConfigSchema),
             (''setup-watch-and-build'', SetupWatchAndBuildSchema)] name"

fun seg_string :: "path_seg \<Rightarrow> string" where
  "seg_string (Key k) = k"
| "seg_string (Index i) = show_nat i"

definition issue_entry :: "zod_issue \<Rightarrow> string" where
  "issue_entry e = join ''.'' (map seg_string (path e)) @ '': '' @ message e"

definition invalid_params_message :: "zod_issue list \<Rightarrow> string" where
  "invalid_params_message errors = ''Invalid parameters: '' @ join '', '' (map issue_entry errors)"

subsection \<open>The stream binding\<close>

definition stdio_try :: "env \<Rightarrow> NativelinkConfig \<Rightarrow> string \<Rightarrow> json option \<Rightarrow> thrown + json" where
  "stdio_try e config name args =
     (if name = ''get-bazel-config'' then
        (case zod_parse GetBazelConfigSchema args of
           Inl issues \<Rightarrow> Inl (ZodError issues)
         | Inr params \<Rightarrow> Inr (JStr (generateBazelConfig (as_GetBazelConfigParams params) (clock e))))
      else if name = ''get-nativelink-docs'' then
        (case zod_parse GetNativelinkDocsSchema args of
           Inl issues \<Rightarrow> Inl (ZodError issues)
         | Inr params \<Rightarrow> getNativelinkDocs (as_GetNativelinkDocsParams params) e config)
      else if name = ''analyze-build-performance'' then
        (case zod_parse AnalyzeBuildPerformanceSchema args of
           Inl issues \<Rightarrow> Inl (ZodError issues)
         | Inr params \<Rightarrow> returned_or_thrown (analyzeBuildPerformance e params config))
      else if name = ''generate-deployment-config'' then
        (case zod_parse GenerateDeploymentConfigSchema args of
           Inl issues \<Rightarrow> Inl (ZodError issues)
         | Inr params \<Rightarrow> returned_or_thrown (generateDeploymentConfig e params))
      else if name = ''setup-watch-and-build'' then
        (case zod_parse SetupWatchAndBuildSchema args of
           Inl issues \<Rightarrow> Inl (ZodError issues)
         | Inr params \<Rightarrow> returned_or_thrown (setupWatchAndBuild e params))
      else Inl (McpError MethodNotFound (''Tool not found: '' @ name)))"

text \<open>
  The handler with its \<open>catch\<close>: a \<open>ZodError\<close> becomes \<open>McpError(InvalidParams, ...)\<close>, every
  other error is thrown again.
\<close>

definition stdio_call_tool :: "env \<Rightarrow> NativelinkConfig \<Rightarrow> string \<Rightarrow> json option \<Rightarrow> envelope" where
  "stdio_call_tool e config name args =
     (case stdio_try e config name args of
        Inr text \<Rightarrow> success_of text
      | Inl (ZodError issues) \<Rightarrow> Failure InvalidParams (invalid_params_message issues)
      | Inl (McpError code msg) \<Rightarrow> Failure code msg
      | Inl (Error msg) \<Rightarrow> Failure InternalError msg)"

subsection \<open>The HTTP binding\<close>

text \<open>\<open>request.params?.arguments || {}\<close>: a falsy value gives way to the empty object.\<close>

fun arguments_or_empty :: "json option \<Rightarrow> json" where
  "arguments_or_empty None = JObj []"
| "arguments_or_empty (Some JNull) = JObj []"
| "arguments_or_empty (Some (JBool b)) = (if b then JBool b else JObj [])"
| "arguments_or_empty (Some (JNum n)) = (if n = 0 then JObj [] else JNum n)"
| "arguments_or_empty (Some (JStr s)) = (if s = [] then JObj [] else JStr s)"
| "arguments_or_empty (Some v) = v"

text \<open>
  The inner \<open>try\<close> block of the \<open>tools/call\<close> branch; \<open>api\<close> is the configuration of the
  client made for this request. A missing tool name prints as \<open>undefined\<close>.
\<close>

definition http_try :: "env \<Rightarrow> NativelinkConfig \<Rightarrow> string option \<Rightarrow> json \<Rightarrow> thrown + json" where
  "http_try e api toolName args =
     (if toolName = Some ''get-bazel-config'' then
        (case zod_parse GetBazelConfigSchema (Some args) of
           Inl issues \<Rightarrow> Inl (ZodError issues)
         | Inr params \<Rightarrow> Inr (JStr (generateBazelConfig (as_GetBazelConfigParams params) (clock e))))
      else if toolName = Some ''get-nativelink-docs'' then
        (case zod_parse GetNativelinkDocsSchema (Some args) of
           Inl issues \<Rightarrow> Inl (ZodError issues)
         | Inr params \<Rightarrow> getNativelinkDocs (as_GetNativelinkDocsParams params) e api)
      else if toolName = Some ''analyze-build-performance'' then
        (case zod_parse AnalyzeBuildPerformanceSchema (Some args) of
           Inl issues \<Rightarrow> Inl (ZodError issues)
         | Inr params \<Rightarrow> returned_or_thrown (analyzeBuildPerformance e params api))
      else if toolName = Some ''generate-deployment-config'' then
        (case zod_parse GenerateDeploymentConfigSchema (Some args) of
           Inl issues \<Rightarrow> Inl (ZodError issues)
         | Inr params \<Rightarrow> returned_or_thrown (generateDeploymentConfig e params))
      else if toolName = Some ''setup-watch-and-build'' then
        (case zod_parse SetupWatchAndBuildSchema (Some args) of
           Inl issues \<Rightarrow> Inl (ZodError issues)
         | Inr params \<Rightarrow> returned_or_thrown (setupWatchAndBuild e params))
      else Inl (Error (''Unknown tool: '' @ (case toolName of None \<Rightarrow> ''undefined'' | Some n \<Rightarrow> n))))"

text \<open>
  The \<open>tools/call\<close> branch with its \<open>catch\<close>: \<open>InvalidParams\<close> for a \<open>ZodError\<close>,
  \<open>InternalError\<close> with the error's message for anything else (nothing in this binding
  throws an \<open>McpError\<close>).
\<close>

definition http_call_tool ::
  "env \<Rightarrow> NativelinkConfig \<Rightarrow> string option \<Rightarrow> json option \<Rightarrow> envelope"
where
  "http_call_tool e api toolName arguments =
     (case http_try e api toolName (arguments_or_empty arguments) of
        Inr content \<Rightarrow> success_of content
      | Inl (ZodError issues) \<Rightarrow> Failure InvalidParams (invalid_params_message issues)
      | Inl (McpError code msg) \<Rightarrow> Failure InternalError msg
      | Inl (Error msg) \<Rightarrow> Failure InternalError msg)"

text \<open>\<open>{ ...CONFIG, apiKey: apiKey || CONFIG.apiKey }\<close>: a new object, made for one request.\<close>

definition request_config :: "NativelinkConfig \<Rightarrow> string option \<Rightarrow> NativelinkConfig" where
  "request_config CONFIG key =
     CONFIG\<lparr> apiKey := (case key of None \<Rightarrow> apiKey CONFIG
                         | Some k \<Rightarrow> if k = [] then apiKey CONFIG else Some k) \<rparr>"

text \<open>
  An HTTP request. Its body is represented by what the handler reads from
  \<open>JSON.parse(body)\<close>: \<open>RpcUnreadable\<close> when parsing throws or yields \<open>null\<close>, otherwise the
  kind of \<open>request.method\<close> and, for \<open>tools/call\<close>, the tool name (a string, when there is
  one) and the arguments.
\<close>

datatype rpc_request =
    RpcUnreadable
  | ToolsList
  | ToolsCall "string option" "json option"
  | OtherMethod

record http_request =
  req_method :: string
  req_url :: string
  req_headers :: headers
  req_body :: rpc_request

text \<open>
  A response body: nothing, plain text, \<open>{error: text}\<close>, the list of tools (by name; the
  descriptions and JSON schemas are literals), or the result of a call.
\<close>

datatype http_body =
    NoBody
  | PlainText string
  | JsonError string
  | JsonTools "string list"
  | JsonEnvelope envelope

record http_response =
  res_status :: nat
  res_headers :: "(string \<times> string) list"
  res_body :: http_body

definition cors_headers :: "(string \<times> string) list" where
  "cors_headers =
     [(''Access-Control-Allow-Origin'', ''*''),
      (''Access-Control-Allow-Methods'', ''GET, POST, OPTIONS''),
      (''Access-Control-Allow-Headers'', ''*'')]"

definition respond :: "nat \<Rightarrow> string \<Rightarrow> http_body \<Rightarrow> http_response" where
  "respond st content_type b =
     \<lparr> res_status = st, res_headers = cors_headers @ [(''Content-Type'', content_type)], res_body = b \<rparr>"

text \<open>The \<open>POST /mcp\<close> branch, inside the outer \<open>try\<close>.\<close>

definition http_mcp :: "env \<Rightarrow> NativelinkConfig \<Rightarrow> http_request \<Rightarrow> thrown + http_response" where
  "http_mcp e CONFIG req =
     (case req_body req of
        RpcUnreadable \<Rightarrow> Inl (Error ''Unexpected token'')
      | ToolsList \<Rightarrow> Inr (respond 200 ''application/json'' (JsonTools tool_names))
      | ToolsCall toolName arguments \<Rightarrow>
          (case parseApiKey (req_headers req) of
             Inl err \<Rightarrow> Inl err
           | Inr key \<Rightarrow>
               Inr (respond 200 ''application/json''
                      (JsonEnvelope (http_call_tool e (request_config CONFIG key) toolName arguments))))
      | OtherMethod \<Rightarrow> Inr (respond 404 ''application/json'' (JsonError ''Method not found'')))"

text \<open>
  The request listener, with the process configuration \<open>CONFIG\<close> as the state it is given
  and returns.
\<close>

definition http_handler :: "env \<Rightarrow> NativelinkConfig \<Rightarrow> http_request \<Rightarrow> NativelinkConfig \<times> http_response" where
  "http_handler e CONFIG req =
     (if req_method req = ''OPTIONS'' then
        (CONFIG, \<lparr> res_status = 204, res_headers = cors_headers, res_body = NoBody \<rparr>)
      else if req_url req = ''/ping'' then
        (CONFIG, respond 200 ''text/plain'' (PlainText ''pong''))
      else if req_url req = ''/mcp'' \<and> req_method req = ''POST'' then
        (case http_mcp e CONFIG req of
           Inr response \<Rightarrow> (CONFIG, response)
         | Inl err \<Rightarrow> (CONFIG, respond 500 ''application/json'' (JsonError ''Internal server error'')))
      else (CONFIG, respond 404 ''text/plain'' (PlainText ''Not found'')))"

section \<open>Failing fetches and example inputs\<close>

text \<open>
  A fetch of the documentation fails inside the \<open>try\<close> block when \<open>fetch\<close> rejects, when the
  status is not 2xx, or when the body cannot be parsed or is \<open>null\<close>.
\<close>

fun fetch_failed :: "fetch_outcome \<Rightarrow> bool" where
  "fetch_failed FetchRejected = True"
| "fetch_failed (FetchResponse st text b) =
     (\<not> response_ok st \<or> b = BodyUnreadable \<or> b = BodyJson JNull)"

text \<open>
  Inputs for the examples: a startup configuration, an environment whose network is
  unreachable and whose three parametric handlers return a fixed word, and a request that
  carries an API key.
\<close>

definition example_config :: NativelinkConfig where
  "example_config =
     \<lparr> apiKey = Some ''startup-key'', anthropicKey = None, geminiKey = None,
       nativelinkUrl = None, debug = Some False \<rparr>"

definition offline_env :: env where
  "offline_env =
     \<lparr> fetch = (\<lambda>request. FetchRejected),
       clock = \<lparr> ts_year = 2025, ts_month = 1, ts_day = 2, ts_hours = 3, ts_minutes = 4,
                 ts_seconds = 5, ts_milliseconds = 6 \<rparr>,
       coerced_le = (\<lambda>v x. False),
       analyzeBuildPerformance = (\<lambda>params config. Inr ''analysis''),
       generateDeploymentConfig = (\<lambda>params. Inr ''deployment''),
       setupWatchAndBuild = (\<lambda>params. Inr ''watch'') \<rparr>"

definition example_request :: "string \<Rightarrow> string \<Rightarrow> rpc_request \<Rightarrow> http_request" where
  "example_request m u b =
     \<lparr> req_method = m, req_url = u,
       req_headers = [''x-api-key'' \<mapsto> Single ''request-key''], req_body = b \<rparr>"

text \<open>The arguments of the Rust scenario, and the parameters they validate to.\<close>

definition rust_remote_cache_args :: json where
  "rust_remote_cache_args =
     JObj [(''projectType'', JStr ''rust''), (''features'', JArr [JStr ''remote_cache''])]"

definition rust_remote_cache_params :: GetBazelConfigParams where
  "rust_remote_cache_params =
     \<lparr> projectType = ''rust'', config_nativelinkUrl = None,
       config_features = Some [''remote_cache''] \<rparr>"

section \<open>Truncation\<close>

lemma truncateResponse_short:
  "of_nat (length text) \<le> 4 * m \<Longrightarrow> truncateResponse text m = text"
  by (simp add: truncateResponse_def mult.commute)

lemma truncateResponse_long:
  "4 * m < of_nat (length text) \<Longrightarrow>
     truncateResponse text m = take (nat \<lfloor>4 * m\<rfloor>) text @ truncation_marker"
  by (simp add: truncateResponse_def mult.commute)





section \<open>Credential extraction\<close>

lemma toLowerCase_Bearer: "toLowerCase ''Bearer'' = ''bearer''"
  by (simp add: toLowerCase_def ascii_lower_def)

lemma is_js_space_blank: "is_js_space (CHR '' '')"
  by (simp add: is_js_space_def)

lemma bearer_match_Bearer:
  assumes "tok \<noteq> []" "\<not> is_js_space (hd tok)" "\<not> list_ex is_line_terminator tok"
  shows "bearer_match (''Bearer '' @ tok) = Some tok"
proof -
  from assms obtain c cs where tok: "tok = c # cs" by (cases tok) auto
  with assms have "takeWhile is_js_space (CHR '' '' # tok) = [CHR '' '']"
    by (simp add: is_js_space_blank)
  then have "length (takeWhile is_js_space (CHR '' '' # tok)) = Suc 0" by simp
  moreover have "bearer_backtrack (Suc 0) (CHR '' '' # tok) = Some tok"
    using assms by (simp add: Let_def)
  ultimately show ?thesis
    using toLowerCase_Bearer by (simp add: bearer_match_def)
qed

lemma bearer_match_nonempty: "bearer_match s = Some token \<Longrightarrow> s \<noteq> []"
  by (auto simp: bearer_match_def toLowerCase_def)

lemma parseApiKey_loop_step_skipped:
  assumes "header_skipped hs key"
  shows "parseApiKey_loop hs (key # keys) = parseApiKey_loop hs keys"
proof -
  from assms have "hs key = None \<or> hs key = Some (Single [])
      \<or> (toLowerCase key = ''authorization''
          \<and> (\<exists>v s. hs key = Some v \<and> first_header_value v = Some s \<and> bearer_match s = None))"
    by (simp only: header_skipped_def)
  then show ?thesis
  proof (elim disjE conjE exE)
    assume "hs key = None"
    then show ?thesis by simp
  next
    assume "hs key = Some (Single [])"
    then show ?thesis by simp
  next
    fix v s
    assume "toLowerCase key = ''authorization''" "hs key = Some v"
      "first_header_value v = Some s" "bearer_match s = None"
    then show ?thesis by (cases "truthy_header v") simp_all
  qed
qed

lemma parseApiKey_loop_skip:
  "\<forall>k \<in> set before. header_skipped hs k \<Longrightarrow>
     parseApiKey_loop hs (before @ keys) = parseApiKey_loop hs keys"
proof (induction before)
  case Nil
  then show ?case by simp
next
  case (Cons k before)
  then have "header_skipped hs k" by simp
  then have "parseApiKey_loop hs (k # before @ keys) = parseApiKey_loop hs (before @ keys)"
    by (rule parseApiKey_loop_step_skipped)
  with Cons show ?case by simp
qed

lemma parseApiKey_after_skipped:
  assumes "headerKeys = before @ key # rest" "\<forall>k \<in> set before. header_skipped hs k"
  shows "parseApiKey hs = parseApiKey_loop hs (key # rest)"
proof -
  have "parseApiKey hs = parseApiKey_loop hs (before @ key # rest)"
    unfolding parseApiKey_def assms(1) ..
  also have "\<dots> = parseApiKey_loop hs (key # rest)"
    using assms(2) by (rule parseApiKey_loop_skip)
  finally show ?thesis .
qed

text \<open>
  C5. When the \<open>authorization\<close> header has the form \<open>Bearer token\<close>, \<open>parseApiKey\<close> returns
  that token whatever the other headers are; a value \<open>Bearer \<close> followed by a token without
  leading white space or line break has that form. The names are tried in the fixed order
  and a name is passed over when its header is absent, empty, or an authorization value
  that is not of the Bearer form: after names that are all passed over, an authorization
  header of the Bearer form gives its token, and a custom API-key header with a non-empty
  value gives that value, whatever the headers of the later names are; when every name is
  passed over there is no key.
\<close>

theorem parseApiKey_bearer_first:
  "(hs ''authorization'' = Some v \<and> first_header_value v = Some s \<and> bearer_match s = Some token
      \<longrightarrow> parseApiKey hs = Inr (Some token))
   \<and> (tok \<noteq> [] \<and> \<not> is_js_space (hd tok) \<and> \<not> list_ex is_line_terminator tok
      \<longrightarrow> bearer_match (''Bearer '' @ tok) = Some tok)
   \<and> (headerKeys = before @ key # rest \<and> (\<forall>k \<in> set before. header_skipped hs k)
        \<and> toLowerCase key = ''authorization''
        \<and> hs key = Some v \<and> first_header_value v = Some s \<and> bearer_match s = Some token
      \<longrightarrow> parseApiKey hs = Inr (Some token))
   \<and> (headerKeys = before @ key # rest \<and> (\<forall>k \<in> set before. header_skipped hs k)
        \<and> toLowerCase key \<noteq> ''authorization''
        \<and> hs key = Some v' \<and> truthy_header v' \<and> first_header_value v' = Some s'
      \<longrightarrow> parseApiKey hs = Inr (Some s'))
   \<and> ((\<forall>k \<in> set headerKeys. header_skipped hs k) \<longrightarrow> parseApiKey hs = Inr None)"
proof (intro conjI impI)
  assume a: "hs ''authorization'' = Some v \<and> first_header_value v = Some s \<and> bearer_match s = Some token"
  then have "s \<noteq> []" by (auto dest: bearer_match_nonempty)
  with a have "truthy_header v" by (cases v) auto
  with a show "parseApiKey hs = Inr (Some token)"
    by (simp add: parseApiKey_def headerKeys_def toLowerCase_def ascii_lower_def)
next
  assume "tok \<noteq> [] \<and> \<not> is_js_space (hd tok) \<and> \<not> list_ex is_line_terminator tok"
  then show "bearer_match (''Bearer '' @ tok) = Some tok" by (intro bearer_match_Bearer) simp_all
next
  assume a: "headerKeys = before @ key # rest \<and> (\<forall>k \<in> set before. header_skipped hs k)
        \<and> toLowerCase key = ''authorization''
        \<and> hs key = Some v \<and> first_header_value v = Some s \<and> bearer_match s = Some token"
  then have "s \<noteq> []" by (auto dest: bearer_match_nonempty)
  with a have t: "truthy_header v" by (cases v) auto
  from a have "parseApiKey hs = parseApiKey_loop hs (key # rest)"
    using parseApiKey_after_skipped [of before key rest hs] by simp
  also from a t have "\<dots> = Inr (Some token)" by simp
  finally show "parseApiKey hs = Inr (Some token)" .
next
  assume a: "headerKeys = before @ key # rest \<and> (\<forall>k \<in> set before. header_skipped hs k)
        \<and> toLowerCase key \<noteq> ''authorization''
        \<and> hs key = Some v' \<and> truthy_header v' \<and> first_header_value v' = Some s'"
  then have "parseApiKey hs = parseApiKey_loop hs (key # rest)"
    using parseApiKey_after_skipped [of before key rest hs] by simp
  also from a have "\<dots> = Inr (Some s')" by simp
  finally show "parseApiKey hs = Inr (Some s')" .
next
  assume "\<forall>k \<in> set headerKeys. header_skipped hs k"
  then have "parseApiKey_loop hs (headerKeys @ []) = parseApiKey_loop hs []"
    by (rule parseApiKey_loop_skip)
  then show "parseApiKey hs = Inr None" by (simp add: parseApiKey_def)
qed

theorem parseApiKey_bearer_first_witness:
  "parseApiKey [''authorization'' \<mapsto> Single ''Bearer abc'', ''x-api-key'' \<mapsto> Single ''xyz'']
     = Inr (Some ''abc'')
   \<and> bearer_match ''Bearer abc'' = Some ''abc''
   \<and> parseApiKey [''authorization'' \<mapsto> Single [], ''Authorization'' \<mapsto> Single ''bearer  abc'',
                    ''Nativelink-API-Key'' \<mapsto> Single ''xyz'']
     = Inr (Some ''abc'')
   \<and> parseApiKey [''authorization'' \<mapsto> Single ''Basic abc'', ''x-api-key'' \<mapsto> Single ''xyz'',
                    ''X-API-Key'' \<mapsto> Single ''other'']
     = Inr (Some ''xyz'')
   \<and> parseApiKey [''authorization'' \<mapsto> Single ''Basic abc'', ''x-api-key'' \<mapsto> Single []]
     = Inr None"
proof -
  let ?bearer = "[''authorization'' \<mapsto> Single ''Bearer abc'', ''x-api-key'' \<mapsto> Single ''xyz'']"
  let ?upper = "[''authorization'' \<mapsto> Single [], ''Authorization'' \<mapsto> Single ''bearer  abc'',
                 ''Nativelink-API-Key'' \<mapsto> Single ''xyz'']"
  let ?basic = "[''authorization'' \<mapsto> Single ''Basic abc'', ''x-api-key'' \<mapsto> Single ''xyz'',
                 ''X-API-Key'' \<mapsto> Single ''other'']"
  let ?none = "[''authorization'' \<mapsto> Single ''Basic abc'', ''x-api-key'' \<mapsto> Single []]"
  have lower: "toLowerCase ''authorization'' = ''authorization''"
    "toLowerCase ''Authorization'' = ''authorization''"
    "toLowerCase ''x-api-key'' \<noteq> ''authorization''"
    by (simp_all add: toLowerCase_def ascii_lower_def)
  have matches: "bearer_match ''Bearer abc'' = Some ''abc''" "bearer_match ''bearer  abc'' = Some ''abc''"
    "bearer_match ''Basic abc'' = None"
    by (simp_all add: bearer_match_def toLowerCase_def ascii_lower_def is_js_space_def
          is_line_terminator_def)
  note t1 = parseApiKey_bearer_first
    [where hs = ?bearer and v = "Single ''Bearer abc''" and s = "''Bearer abc''"
       and token = "''abc''" and tok = "''abc''", THEN conjunct1, THEN mp]
  note t2 = parseApiKey_bearer_first
    [where tok = "''abc''", THEN conjunct2, THEN conjunct1, THEN mp]
  note t3 = parseApiKey_bearer_first
    [where hs = ?upper and before = "[''authorization'']" and key = "''Authorization''"
       and rest = "[''nativelink-api-key'', ''Nativelink-API-Key'', ''NATIVELINK_API_KEY'',
                    ''x-api-key'', ''X-API-Key'', ''X_API_KEY'']"
       and v = "Single ''bearer  abc''" and s = "''bearer  abc''" and token = "''abc''",
     THEN conjunct2, THEN conjunct2, THEN conjunct1, THEN mp]
  note t4 = parseApiKey_bearer_first
    [where hs = ?basic
       and before = "[''authorization'', ''Authorization'', ''nativelink-api-key'',
                      ''Nativelink-API-Key'', ''NATIVELINK_API_KEY'']"
       and key = "''x-api-key''" and rest = "[''X-API-Key'', ''X_API_KEY'']"
       and v' = "Single ''xyz''" and s' = "''xyz''",
     THEN conjunct2, THEN conjunct2, THEN conjunct2, THEN conjunct1, THEN mp]
  note t5 = parseApiKey_bearer_first
    [where hs = ?none, THEN conjunct2, THEN conjunct2, THEN conjunct2, THEN conjunct2, THEN mp]
  have r1: "parseApiKey ?bearer = Inr (Some ''abc'')"
    by (rule t1) (simp add: matches)
  have r2: "bearer_match ''Bearer abc'' = Some ''abc''"
    using t2 by (simp add: is_js_space_def is_line_terminator_def)
  have r3: "parseApiKey ?upper = Inr (Some ''abc'')"
    by (rule t3) (simp add: headerKeys_def header_skipped_def lower matches)
  have r4: "parseApiKey ?basic = Inr (Some ''xyz'')"
    by (rule t4) (simp add: headerKeys_def header_skipped_def lower matches)
  have r5: "parseApiKey ?none = Inr None"
    by (rule t5) (simp add: headerKeys_def header_skipped_def lower matches)
  from r1 r2 r3 r4 r5 show ?thesis by (simp only: simp_thms)
qed

section \<open>Validation\<close>

lemma zparse_fields_issues:
  "fst (zparse_fields shape p kvs)
     = concat (map (\<lambda>(k, s). fst (zparse s (p @ [Key k]) (map_of kvs k))) shape)"
  by (induction shape) (auto split: prod.splits)

lemma show_int_1000: "show_int 1000 = ''1000''"
  by (simp add: show_int_def show_nat.simps digit_char_def)

lemma sublist_prepend: "sublist x ys \<Longrightarrow> sublist x (zs @ ys)"
proof -
  assume "sublist x ys"
  then obtain ps ss where "ys = ps @ x @ ss" by (auto simp: sublist_def)
  then have "zs @ ys = (zs @ ps) @ x @ ss" by simp
  then show ?thesis unfolding sublist_def by blast
qed

lemma sublist_extend: "sublist x ys \<Longrightarrow> sublist x (ys @ zs)"
proof -
  assume "sublist x ys"
  then obtain ps ss where "ys = ps @ x @ ss" by (auto simp: sublist_def)
  then have "ys @ zs = ps @ x @ (ss @ zs)" by simp
  then show ?thesis unfolding sublist_def by blast
qed

lemma mem_sublist_join: "x \<in> set xs \<Longrightarrow> sublist x (join sep xs)"
proof (induction sep xs rule: join.induct)
  case (3 sep a b bs)
  show ?case
  proof (cases "x = a")
    case True
    then show ?thesis by simp
  next
    case False
    with 3 have "sublist x (join sep (b # bs))" by simp
    then have "sublist x ((a @ sep) @ join sep (b # bs))" by (rule sublist_prepend)
    then show ?thesis by simp
  qed
qed simp_all

lemma maxTokens_issue:
  assumes "map_of kvs ''maxTokens'' = Some (JNum n)" "n < 1000"
  shows "ZodIssue [Key ''maxTokens''] ''Number must be greater than or equal to 1000''
           \<in> set (fst (zparse GetNativelinkDocsSchema [] (Some (JObj kvs))))"
  using assms
  by (simp add: GetNativelinkDocsSchema_def zparse_fields_issues show_int_1000 split: prod.splits)


lemma zod_parse_issues:
  "fst (zparse schema [] v) \<noteq> [] \<Longrightarrow> zod_parse schema v = Inl (fst (zparse schema [] v))"
  by (cases "zparse schema [] v"; cases "fst (zparse schema [] v)") (auto simp: zod_parse_def)

lemma zod_parse_Inr:
  "zod_parse schema v = Inr out \<Longrightarrow> zparse schema [] v = ([], out)"
  by (cases "zparse schema [] v"; cases "fst (zparse schema [] v)") (auto simp: zod_parse_def)

lemma stdio_call_tool_invalid:
  assumes "tool_schema name = Some schema" "fst (zparse schema [] args) \<noteq> []"
  shows "stdio_call_tool e config name args
           = Failure InvalidParams (invalid_params_message (fst (zparse schema [] args)))"
  using assms zod_parse_issues [OF assms(2)]
  by (auto simp: tool_schema_def stdio_call_tool_def stdio_try_def split: if_splits)

lemma http_call_tool_invalid:
  assumes "tool_schema name = Some schema" "fst (zparse schema [] (Some (JObj kvs))) \<noteq> []"
  shows "http_call_tool e api (Some name) (Some (JObj kvs))
           = Failure InvalidParams (invalid_params_message (fst (zparse schema [] (Some (JObj kvs)))))"
  using assms zod_parse_issues [OF assms(2)]
  by (auto simp: tool_schema_def http_call_tool_def http_try_def split: if_splits)

lemma zparse_path_prefix:
  "i \<in> set (fst (zparse s p v)) \<Longrightarrow> prefix p (path i)"
  "i \<in> set (fst (zparse_fields shape p kvs)) \<Longrightarrow> prefix p (path i)"
  "i \<in> set (fst (zparse_items item p n xs)) \<Longrightarrow> prefix p (path i)"
proof (induction s p v and shape p kvs and item p n xs arbitrary: i and i and i
       rule: zparse_zparse_fields_zparse_items.induct)
  case (2 checks p v)
  have "j \<in> set (check_issues p n c) \<Longrightarrow> path j = p" for j n c
    by (cases c) (auto split: if_splits)
  with 2 show ?case
    by (auto simp: invalid_type_def split: option.splits json.splits)
qed (auto simp: invalid_type_def invalid_enum_value_def
       split: option.splits json.splits if_splits prod.splits
       dest: append_prefixD)


text \<open>
  C4. When the arguments of a registered tool are an object of which at least one field
  violates the schema, both bindings answer \<open>InvalidParams\<close> with the same message:
  \<open>Invalid parameters: \<close> followed by one entry \<open>path: message\<close> for every issue of every
  offending field, in schema order, joined by a comma and a space. The path of each entry
  begins with the name of its field.
\<close>

theorem invalid_params_lists_every_field:
  assumes "tool_schema name = Some (ZObject shape)"
      and "\<exists>(k, s) \<in> set shape. fst (zparse s [Key k] (map_of kvs k)) \<noteq> []"
  shows "stdio_call_tool e config name (Some (JObj kvs))
           = Failure InvalidParams (''Invalid parameters: '' @ join '', ''
               (map issue_entry (concat (map (\<lambda>(k, s). fst (zparse s [Key k] (map_of kvs k))) shape))))
       \<and> http_call_tool e api (Some name) (Some (JObj kvs))
           = Failure InvalidParams (''Invalid parameters: '' @ join '', ''
               (map issue_entry (concat (map (\<lambda>(k, s). fst (zparse s [Key k] (map_of kvs k))) shape))))
       \<and> (\<forall>(k, s) \<in> set shape. \<forall>i \<in> set (fst (zparse s [Key k] (map_of kvs k))).
             (\<exists>rest. path i = Key k # rest)
           \<and> issue_entry i \<in> set (map issue_entry
               (concat (map (\<lambda>(k, s). fst (zparse s [Key k] (map_of kvs k))) shape))))"
proof -
  let ?all = "concat (map (\<lambda>(k, s). fst (zparse s [Key k] (map_of kvs k))) shape)"
  have issues: "fst (zparse (ZObject shape) [] (Some (JObj kvs))) = ?all"
    by (cases "zparse_fields shape [] kvs") (use zparse_fields_issues [of shape "[]" kvs] in simp)
  from assms(2) have "?all \<noteq> []" by fastforce
  with issues have nonempty: "fst (zparse (ZObject shape) [] (Some (JObj kvs))) \<noteq> []" by simp
  have a: "stdio_call_tool e config name (Some (JObj kvs))
             = Failure InvalidParams (invalid_params_message ?all)"
    using stdio_call_tool_invalid [OF assms(1) nonempty] issues by simp
  have b: "http_call_tool e api (Some name) (Some (JObj kvs))
             = Failure InvalidParams (invalid_params_message ?all)"
    using http_call_tool_invalid [OF assms(1) nonempty] issues by simp
  have c: "\<exists>rest. path i = Key k # rest"
    if "i \<in> set (fst (zparse s [Key k] (map_of kvs k)))" for i k s
    using zparse_path_prefix(1) [OF that] by (auto simp: prefix_def)
  have d: "issue_entry i \<in> set (map issue_entry ?all)"
    if "(k, s) \<in> set shape" "i \<in> set (fst (zparse s [Key k] (map_of kvs k)))" for i k s
    using that by force
  from a b c d show ?thesis
    unfolding invalid_params_message_def by blast
qed

theorem invalid_params_lists_every_field_witness:
  "stdio_call_tool offline_env example_config ''get-nativelink-docs''
     (Some (JObj [(''topic'', JStr ''bad''), (''maxTokens'', JNum 10)]))
     = Failure InvalidParams
         (''Invalid parameters: topic: Invalid enum value. Expected 'setup' | 'migration' | 'optimization' | 'troubleshooting' | 'api', received 'bad', maxTokens: Number must be greater than or equal to 1000'')
   \<and> http_call_tool offline_env example_config (Some ''get-nativelink-docs'')
     (Some (JObj [(''topic'', JStr ''bad''), (''maxTokens'', JNum 10)]))
     = Failure InvalidParams
         (''Invalid parameters: topic: Invalid enum value. Expected 'setup' | 'migration' | 'optimization' | 'troubleshooting' | 'api', received 'bad', maxTokens: Number must be greater than or equal to 1000'')"
proof -
  let ?shape = "[(''topic'', ZEnum DocsTopic), (''context'', ZOptional ZString),
                 (''maxTokens'', ZOptional (ZDefault (ZNumber [Min 1000]) (JNum 5000)))]"
  let ?kvs = "[(''topic'', JStr ''bad''), (''maxTokens'', JNum 10)]"
  have schema: "tool_schema ''get-nativelink-docs'' = Some (ZObject ?shape)"
    by (simp add: tool_schema_def GetNativelinkDocsSchema_def)
  have all: "concat (map (\<lambda>(k, s). fst (zparse s [Key k] (map_of ?kvs k))) ?shape)
               = [ZodIssue [Key ''topic'']
                    (''Invalid enum value. Expected 'setup' | 'migration' | 'optimization' | 'troubleshooting' | 'api', received 'bad'' @ [CHR 0x27]),
                  ZodIssue [Key ''maxTokens''] ''Number must be greater than or equal to 1000'']"
    by (simp add: DocsTopic_def invalid_enum_value_def joinValues_def quoted_def show_int_1000)
  have offending: "\<exists>(k, s) \<in> set ?shape. fst (zparse s [Key k] (map_of ?kvs k)) \<noteq> []"
    by (simp add: DocsTopic_def)
  note listed = invalid_params_lists_every_field
    [OF schema offending, of offline_env example_config example_config]
  from listed [THEN conjunct1] listed [THEN conjunct2, THEN conjunct1] show ?thesis
    unfolding all by (simp add: issue_entry_def)
qed

section \<open>Dispatch in the two bindings\<close>

text \<open>
  C2. For the tool name \<open>nonexistent\<close>, which is not registered, the HTTP binding answers
  with the error code \<open>InternalError\<close> and the message \<open>Unknown tool: nonexistent\<close>, not with
  \<open>MethodNotFound\<close>.
\<close>

theorem http_unknown_tool_is_internal_error:
  "http_call_tool e api (Some ''nonexistent'') args = Failure InternalError ''Unknown tool: nonexistent''"
  by (simp add: http_call_tool_def http_try_def)

text \<open>
  C1. For the tool name \<open>nonexistent\<close> and the empty argument object, the stream binding
  answers \<open>MethodNotFound\<close> with \<open>Tool not found: nonexistent\<close> and the HTTP binding answers
  \<open>InternalError\<close> with \<open>Unknown tool: nonexistent\<close>: the two results differ in code and in
  message.
\<close>

theorem bindings_differ_on_unknown_tool:
  "stdio_call_tool e config ''nonexistent'' (Some (JObj []))
     = Failure MethodNotFound ''Tool not found: nonexistent''
   \<and> http_call_tool e config (Some ''nonexistent'') (Some (JObj []))
     = Failure InternalError ''Unknown tool: nonexistent''"
  by (simp add: stdio_call_tool_def stdio_try_def http_call_tool_def http_try_def)

lemma stdio_unknown_tool:
  "name \<notin> set tool_names \<Longrightarrow>
     stdio_call_tool e config name args = Failure MethodNotFound (''Tool not found: '' @ name)"
  by (simp add: tool_names_def stdio_call_tool_def stdio_try_def)

lemma http_unknown_tool:
  "name \<notin> set tool_names \<Longrightarrow>
     http_call_tool e api (Some name) args = Failure InternalError (''Unknown tool: '' @ name)"
  by (simp add: tool_names_def http_call_tool_def http_try_def)


lemma http_try_registered:
  "name \<in> set tool_names \<Longrightarrow> http_try e config (Some name) args = stdio_try e config name (Some args)"
  unfolding tool_names_def http_try_def stdio_try_def by auto

lemma truncateResponse_any_no_McpError:
  "truncateResponse_any cmp v tokens \<noteq> Inl (McpError code msg)"
  by (cases "(cmp, v, tokens)" rule: truncateResponse_any.cases) simp_all

lemma getNativelinkDocs_no_McpError:
  "getNativelinkDocs params e config \<noteq> Inl (McpError code msg)"
  by (simp add: getNativelinkDocs_def Let_def truncateResponse_any_no_McpError)

lemma stdio_try_no_McpError:
  assumes "name \<in> set tool_names"
  shows "stdio_try e config name args \<noteq> Inl (McpError code msg)"
proof -
  have r: "returned_or_thrown x \<noteq> Inl (McpError code msg)" for x
    by (cases x) (simp_all add: returned_or_thrown_def)
  have z: "(case zod_parse s v of Inl issues \<Rightarrow> Inl (ZodError issues) | Inr params \<Rightarrow> f params)
             \<noteq> Inl (McpError code msg)"
    if "\<And>params. f params \<noteq> Inl (McpError code msg)" for s v and f :: "json option \<Rightarrow> thrown + json"
    using that by (cases "zod_parse s v") simp_all
  from assms have "name = ''get-bazel-config'' \<or> name = ''get-nativelink-docs''
    \<or> name = ''analyze-build-performance'' \<or> name = ''generate-deployment-config''
    \<or> name = ''setup-watch-and-build''"
    by (simp add: tool_names_def)
  then show ?thesis
    by (elim disjE) (simp_all add: stdio_try_def z r getNativelinkDocs_no_McpError)
qed

lemma bindings_agree_on_registered_tools:
  assumes "name \<in> set tool_names"
  shows "http_call_tool e config (Some name) (Some (JObj kvs))
           = stdio_call_tool e config name (Some (JObj kvs))"
proof (cases "stdio_try e config name (Some (JObj kvs))")
  case (Inl t)
  with stdio_try_no_McpError [OF assms] show ?thesis
    by (cases t) (simp_all add: http_call_tool_def stdio_call_tool_def http_try_registered [OF assms])
next
  case (Inr content)
  then show ?thesis
    by (simp add: http_call_tool_def stdio_call_tool_def http_try_registered [OF assms])
qed

section \<open>The HTTP routes\<close>

text \<open>
  C6, as amended. The listener answers every \<open>OPTIONS\<close> request with status 204, the three
  CORS headers and no body; every other request to \<open>/ping\<close>, \<open>GET\<close> or not, with status 200
  and the text \<open>pong\<close>; a \<open>POST /mcp\<close> whose body is a \<open>tools/call\<close> request, and whose
  headers \<open>parseApiKey\<close> reads without throwing, with status 200 and the result of the call
  as JSON, whether that result is a success or a failure; and every request that is
  neither \<open>OPTIONS\<close>, nor to \<open>/ping\<close>, nor a \<open>POST\<close> to \<open>/mcp\<close>, with status 404.
\<close>

theorem http_routes:
  "(req_method req = ''OPTIONS'' \<longrightarrow>
      snd (http_handler e CONFIG req)
        = \<lparr> res_status = 204, res_headers = cors_headers, res_body = NoBody \<rparr>)
   \<and> (req_method req \<noteq> ''OPTIONS'' \<and> req_url req = ''/ping'' \<longrightarrow>
      snd (http_handler e CONFIG req)
        = \<lparr> res_status = 200, res_headers = cors_headers @ [(''Content-Type'', ''text/plain'')],
            res_body = PlainText ''pong'' \<rparr>)
   \<and> (req_method req = ''POST'' \<and> req_url req = ''/mcp'' \<and> req_body req = ToolsCall toolName arguments
        \<and> parseApiKey (req_headers req) = Inr key \<longrightarrow>
      snd (http_handler e CONFIG req)
        = \<lparr> res_status = 200, res_headers = cors_headers @ [(''Content-Type'', ''application/json'')],
            res_body = JsonEnvelope (http_call_tool e (request_config CONFIG key) toolName arguments) \<rparr>)
   \<and> (req_method req \<noteq> ''OPTIONS'' \<and> req_url req \<noteq> ''/ping''
        \<and> \<not> (req_url req = ''/mcp'' \<and> req_method req = ''POST'') \<longrightarrow>
      res_status (snd (http_handler e CONFIG req)) = 404)"
  by (auto simp: http_handler_def http_mcp_def respond_def)

lemma parseApiKey_example: "parseApiKey [''x-api-key'' \<mapsto> Single ''request-key''] = Inr (Some ''request-key'')"
  by (simp add: parseApiKey_def headerKeys_def toLowerCase_def ascii_lower_def)

theorem http_routes_witness:
  "res_status (snd (http_handler offline_env example_config (example_request ''OPTIONS'' ''/mcp'' ToolsList))) = 204
   \<and> res_body (snd (http_handler offline_env example_config (example_request ''OPTIONS'' ''/mcp'' ToolsList))) = NoBody
   \<and> res_body (snd (http_handler offline_env example_config (example_request ''GET'' ''/ping'' ToolsList)))
        = PlainText ''pong''
   \<and> snd (http_handler offline_env example_config
        (example_request ''POST'' ''/mcp'' (ToolsCall (Some ''nonexistent'') None)))
        = \<lparr> res_status = 200, res_headers = cors_headers @ [(''Content-Type'', ''application/json'')],
            res_body = JsonEnvelope (Failure InternalError ''Unknown tool: nonexistent'') \<rparr>
   \<and> snd (http_handler offline_env example_config
        (example_request ''POST'' ''/mcp''
           (ToolsCall (Some ''generate-deployment-config'')
              (Some (JObj [(''platform'', JStr ''docker''), (''scale'', JStr ''small'')])))))
        = \<lparr> res_status = 200, res_headers = cors_headers @ [(''Content-Type'', ''application/json'')],
            res_body = JsonEnvelope (Success ''deployment'') \<rparr>
   \<and> res_status (snd (http_handler offline_env example_config (example_request ''GET'' ''/other'' ToolsList))) = 404"
proof -
  have call: "http_call_tool offline_env api (Some ''generate-deployment-config'')
                (Some (JObj [(''platform'', JStr ''docker''), (''scale'', JStr ''small'')]))
              = Success ''deployment''" for api
    by (simp add: http_call_tool_def http_try_def zod_parse_def GenerateDeploymentConfigSchema_def
          Platform_def Scale_def offline_env_def returned_or_thrown_def)
  show ?thesis
    using http_routes [where req = "example_request ''OPTIONS'' ''/mcp'' ToolsList"
        and e = offline_env and CONFIG = example_config]
      http_routes [where req = "example_request ''GET'' ''/ping'' ToolsList"
        and e = offline_env and CONFIG = example_config]
      http_routes [where req = "example_request ''POST'' ''/mcp'' (ToolsCall (Some ''nonexistent'') None)"
        and toolName = "Some ''nonexistent''" and arguments = None and key = "Some ''request-key''"
        and e = offline_env and CONFIG = example_config]
      http_routes [where req = "example_request ''POST'' ''/mcp''
           (ToolsCall (Some ''generate-deployment-config'')
              (Some (JObj [(''platform'', JStr ''docker''), (''scale'', JStr ''small'')])))"
        and toolName = "Some ''generate-deployment-config''"
        and arguments = "Some (JObj [(''platform'', JStr ''docker''), (''scale'', JStr ''small'')])"
        and key = "Some ''request-key''" and e = offline_env and CONFIG = example_config]
      http_routes [where req = "example_request ''GET'' ''/other'' ToolsList"
        and e = offline_env and CONFIG = example_config]
    by (simp add: example_request_def parseApiKey_example call http_unknown_tool tool_names_def)
qed

text \<open>
  C6 as stated fails in two places: a \<open>POST\<close> to \<open>/ping\<close> is not one of the three listed
  routes, yet it is answered 200 with \<open>pong\<close>, not 404; and a \<open>POST /mcp\<close> whose body cannot
  be parsed is answered 500, not 200.
\<close>

theorem http_routes_counterexample:
  "res_status (snd (http_handler offline_env example_config (example_request ''POST'' ''/ping'' ToolsList)))
     = 200
   \<and> res_body (snd (http_handler offline_env example_config (example_request ''POST'' ''/ping'' ToolsList)))
     = PlainText ''pong''
   \<and> res_status (snd (http_handler offline_env example_config (example_request ''POST'' ''/mcp'' RpcUnreadable)))
     = 500
   \<and> res_body (snd (http_handler offline_env example_config (example_request ''POST'' ''/mcp'' RpcUnreadable)))
     = JsonError ''Internal server error''"
  by (simp add: http_handler_def http_mcp_def respond_def example_request_def)

section \<open>The process configuration\<close>

text \<open>
  C9. Handling a request leaves the process configuration as it was, whatever API key the
  request carries; a following request without any of the credential headers yields no
  key, so its client is made with the API key of the startup configuration and its
  \<open>tools/call\<close> is answered as a call under the startup configuration is.
\<close>

theorem request_key_is_local:
  "fst (http_handler e CONFIG req) = CONFIG
   \<and> ((\<forall>k \<in> set headerKeys. req_headers next_req k = None) \<longrightarrow>
        parseApiKey (req_headers next_req) = Inr None
        \<and> apiKey (request_config (fst (http_handler e CONFIG req)) None) = apiKey CONFIG
        \<and> (req_method next_req = ''POST'' \<and> req_url next_req = ''/mcp''
             \<and> req_body next_req = ToolsCall toolName arguments \<longrightarrow>
           res_body (snd (http_handler e (fst (http_handler e CONFIG req)) next_req))
             = JsonEnvelope (http_call_tool e CONFIG toolName arguments)))"
proof -
  have unchanged: "fst (http_handler e CONFIG req) = CONFIG"
    by (simp add: http_handler_def split: sum.splits)
  have none: "parseApiKey (req_headers next_req) = Inr None"
    if "\<forall>k \<in> set headerKeys. req_headers next_req k = None"
    using that by (simp add: parseApiKey_def headerKeys_def)
  have same: "request_config CONFIG None = CONFIG"
    by (simp add: request_config_def)
  have dispatched: "res_body (snd (http_handler e CONFIG next_req))
             = JsonEnvelope (http_call_tool e CONFIG toolName arguments)"
    if "parseApiKey (req_headers next_req) = Inr None" "req_method next_req = ''POST''"
       "req_url next_req = ''/mcp''" "req_body next_req = ToolsCall toolName arguments"
    using that by (simp add: same http_handler_def http_mcp_def respond_def)
  show ?thesis
    unfolding unchanged using none dispatched by (simp add: same)
qed

theorem request_key_is_local_witness:
  "fst (http_handler offline_env example_config
          (example_request ''POST'' ''/mcp'' (ToolsCall (Some ''get-nativelink-docs'') None)))
     = example_config
   \<and> apiKey (request_config example_config (Some ''request-key'')) = Some ''request-key''
   \<and> apiKey (fst (http_handler offline_env example_config
          (example_request ''POST'' ''/mcp'' (ToolsCall (Some ''get-nativelink-docs'') None))))
     = Some ''startup-key''
   \<and> res_body (snd (http_handler offline_env
        (fst (http_handler offline_env example_config
           (example_request ''POST'' ''/mcp'' (ToolsCall (Some ''get-nativelink-docs'') None))))
        \<lparr> req_method = ''POST'', req_url = ''/mcp'', req_headers = Map.empty,
          req_body = ToolsCall (Some ''nonexistent'') None \<rparr>))
     = JsonEnvelope (http_call_tool offline_env example_config (Some ''nonexistent'') None)"
proof -
  let ?first = "example_request ''POST'' ''/mcp'' (ToolsCall (Some ''get-nativelink-docs'') None)"
  let ?second = "\<lparr> req_method = ''POST'', req_url = ''/mcp'', req_headers = Map.empty,
          req_body = ToolsCall (Some ''nonexistent'') None \<rparr>"
  note local = request_key_is_local
    [where e = offline_env and CONFIG = example_config and req = ?first and next_req = ?second
       and toolName = "Some ''nonexistent''" and arguments = None]
  have no_key: "\<forall>k \<in> set headerKeys. req_headers ?second k = None" by simp
  from local have unchanged: "fst (http_handler offline_env example_config ?first) = example_config"
    by (rule conjunct1)
  have post: "req_method ?second = ''POST'' \<and> req_url ?second = ''/mcp''
                \<and> req_body ?second = ToolsCall (Some ''nonexistent'') None"
    by simp
  have "res_body (snd (http_handler offline_env (fst (http_handler offline_env example_config ?first)) ?second))
       = JsonEnvelope (http_call_tool offline_env example_config (Some ''nonexistent'') None)"
    by (rule local [THEN conjunct2, THEN mp, OF no_key, THEN conjunct2, THEN conjunct2, THEN mp, OF post])
  moreover have "apiKey (request_config example_config (Some ''request-key'')) = Some ''request-key''"
    by (simp add: request_config_def)
  moreover have "apiKey example_config = Some ''startup-key''"
    by (simp add: example_config_def)
  ultimately show ?thesis
    using unchanged by simp
qed

section \<open>The documentation tool: what a fetch may answer\<close>

lemma enum_field_ok:
  assumes "zparse (ZEnum vals) p v = ([], out)"
  shows "\<exists>s. v = Some (JStr s) \<and> s \<in> set vals \<and> out = v"
  using assms by (auto split: option.splits json.splits if_splits)

lemma optional_string_field_ok:
  assumes "zparse (ZOptional ZString) p v = ([], out)"
  shows "out = v \<and> (v = None \<or> (\<exists>s. v = Some (JStr s)))"
  using assms by (auto split: option.splits json.splits)

lemma maxTokens_field_ok:
  assumes "zparse (ZOptional (ZDefault (ZNumber [Min 1000]) (JNum 5000))) p v = ([], out)"
  shows "out = v \<and> (v = None \<or> (\<exists>n. v = Some (JNum n) \<and> 1000 \<le> n))"
  using assms by (auto split: option.splits json.splits if_splits)

lemma zparse_object:
  "zparse (ZObject shape) p (Some (JObj kvs))
     = (fst (zparse_fields shape p kvs), Some (JObj (snd (zparse_fields shape p kvs))))"
  by (simp split: prod.splits)

lemma zparse_fields_Nil: "zparse_fields [] p kvs = ([], [])"
  by simp

lemma zparse_fields_Cons:
  "zparse_fields ((k, s) # shape) p kvs
     = (fst (zparse s (p @ [Key k]) (map_of kvs k)) @ fst (zparse_fields shape p kvs),
        (case snd (zparse s (p @ [Key k]) (map_of kvs k)) of None \<Rightarrow> [] | Some j \<Rightarrow> [(k, j)])
          @ snd (zparse_fields shape p kvs))"
  by (simp split: prod.splits option.splits)

lemma docs_parse_ok:
  assumes "zod_parse GetNativelinkDocsSchema (Some args) = Inr out"
  shows "\<exists>kvs t. args = JObj kvs
           \<and> map_of kvs ''topic'' = Some (JStr t) \<and> t \<in> set DocsTopic
           \<and> topic (as_GetNativelinkDocsParams out) = t
           \<and> (maxTokens (as_GetNativelinkDocsParams out) = None
                \<or> (\<exists>n. maxTokens (as_GetNativelinkDocsParams out) = Some n \<and> 1000 \<le> n))"
proof -
  from assms have z: "zparse GetNativelinkDocsSchema [] (Some args) = ([], out)"
    by (rule zod_parse_Inr)
  then obtain kvs where args: "args = JObj kvs"
    by (cases args) (auto simp: GetNativelinkDocsSchema_def)
  obtain ti tout where t: "zparse (ZEnum DocsTopic) [Key ''topic''] (map_of kvs ''topic'') = (ti, tout)"
    by (cases "zparse (ZEnum DocsTopic) [Key ''topic''] (map_of kvs ''topic'')")
  obtain ci cout where c: "zparse (ZOptional ZString) [Key ''context''] (map_of kvs ''context'') = (ci, cout)"
    by (cases "zparse (ZOptional ZString) [Key ''context''] (map_of kvs ''context'')")
  obtain mi mout where m: "zparse (ZOptional (ZDefault (ZNumber [Min 1000]) (JNum 5000)))
                             [Key ''maxTokens''] (map_of kvs ''maxTokens'') = (mi, mout)"
    by (cases "zparse (ZOptional (ZDefault (ZNumber [Min 1000]) (JNum 5000)))
                             [Key ''maxTokens''] (map_of kvs ''maxTokens'')")
  have "zparse GetNativelinkDocsSchema [] (Some (JObj kvs))
          = (ti @ ci @ mi,
             Some (JObj ((case tout of None \<Rightarrow> [] | Some j \<Rightarrow> [(''topic'', j)])
                @ (case cout of None \<Rightarrow> [] | Some j \<Rightarrow> [(''context'', j)])
                @ (case mout of None \<Rightarrow> [] | Some j \<Rightarrow> [(''maxTokens'', j)]))))"
    unfolding GetNativelinkDocsSchema_def zparse_object zparse_fields_Cons zparse_fields_Nil
    by (simp only: append_Nil t c m fst_conv snd_conv append_Nil2)
  with z args have empty: "ti = []" "ci = []" "mi = []"
    and out: "out = Some (JObj ((case tout of None \<Rightarrow> [] | Some j \<Rightarrow> [(''topic'', j)])
                @ (case cout of None \<Rightarrow> [] | Some j \<Rightarrow> [(''context'', j)])
                @ (case mout of None \<Rightarrow> [] | Some j \<Rightarrow> [(''maxTokens'', j)])))"
    by simp_all
  from t empty enum_field_ok obtain s where s: "map_of kvs ''topic'' = Some (JStr s)" "s \<in> set DocsTopic"
    "tout = Some (JStr s)" by metis
  from c empty optional_string_field_ok have cc: "cout = None \<or> (\<exists>x. cout = Some (JStr x))" by metis
  from m empty maxTokens_field_ok have mm: "mout = None \<or> (\<exists>n. mout = Some (JNum n) \<and> 1000 \<le> n)" by metis
  from s cc mm show ?thesis
    unfolding args out
    by (auto simp: as_GetNativelinkDocsParams_def field_string_def field_number_def)
qed


lemma docs_dispatch_valid:
  assumes "zod_parse GetNativelinkDocsSchema (Some args) = Inr out"
  shows "stdio_call_tool e config ''get-nativelink-docs'' (Some args)
           = (case getNativelinkDocs (as_GetNativelinkDocsParams out) e config of
                Inr content \<Rightarrow> success_of content
              | Inl (ZodError issues) \<Rightarrow> Failure InvalidParams (invalid_params_message issues)
              | Inl (McpError code msg) \<Rightarrow> Failure code msg
              | Inl (Error msg) \<Rightarrow> Failure InternalError msg)"
    and "http_call_tool e config (Some ''get-nativelink-docs'') (Some args)
           = (case getNativelinkDocs (as_GetNativelinkDocsParams out) e config of
                Inr content \<Rightarrow> success_of content
              | Inl (ZodError issues) \<Rightarrow> Failure InvalidParams (invalid_params_message issues)
              | Inl (McpError code msg) \<Rightarrow> Failure InternalError msg
              | Inl (Error msg) \<Rightarrow> Failure InternalError msg)"
proof -
  from docs_parse_ok [OF assms] obtain kvs where "args = JObj kvs" by blast
  then have "arguments_or_empty (Some args) = args" by simp
  with assms show "http_call_tool e config (Some ''get-nativelink-docs'') (Some args)
           = (case getNativelinkDocs (as_GetNativelinkDocsParams out) e config of
                Inr content \<Rightarrow> success_of content
              | Inl (ZodError issues) \<Rightarrow> Failure InvalidParams (invalid_params_message issues)
              | Inl (McpError code msg) \<Rightarrow> Failure InternalError msg
              | Inl (Error msg) \<Rightarrow> Failure InternalError msg)"
    by (simp add: http_call_tool_def http_try_def)
  from assms show "stdio_call_tool e config ''get-nativelink-docs'' (Some args)
           = (case getNativelinkDocs (as_GetNativelinkDocsParams out) e config of
                Inr content \<Rightarrow> success_of content
              | Inl (ZodError issues) \<Rightarrow> Failure InvalidParams (invalid_params_message issues)
              | Inl (McpError code msg) \<Rightarrow> Failure code msg
              | Inl (Error msg) \<Rightarrow> Failure InternalError msg)"
    by (simp add: stdio_call_tool_def stdio_try_def)
qed

lemma join_Cons_nonempty: "x \<noteq> [] \<Longrightarrow> join sep (x # xs) \<noteq> []"
  by (cases xs) simp_all

lemma prefix_join_Cons: "prefix x (join sep (x # xs))"
  by (cases xs) simp_all

lemma offline_docs_nonempty:
  "offline_setup \<noteq> []" "offline_migration \<noteq> []" "offline_optimization \<noteq> []"
  "offline_troubleshooting \<noteq> []" "offline_api \<noteq> []"
  unfolding offline_setup_def offline_migration_def offline_optimization_def
    offline_troubleshooting_def offline_api_def
  by (rule join_Cons_nonempty; simp)+

lemma setup_heading: "prefix ''# Nativelink Cloud Setup Guide'' offline_setup"
  unfolding offline_setup_def by (rule prefix_join_Cons)

lemma offline_lookup:
  assumes "t \<in> set DocsTopic"
  shows "\<exists>doc. map_of offline_docs t = Some doc \<and> getOfflineDocumentation t c = doc"
  using assms offline_docs_nonempty
  by (auto simp: DocsTopic_def offline_docs_def getOfflineDocumentation_def)

lemma fetchDocumentation_failed:
  assumes "fetch_failed (f (docs_request config t c))"
  shows "fetchDocumentation f config t c = Some (JStr (getOfflineDocumentation t c))"
proof (cases "f (docs_request config t c)")
  case FetchRejected
  then show ?thesis by (simp add: fetchDocumentation_def fetchDocumentation_try_def)
next
  case (FetchResponse st msg b)
  with assms show ?thesis
    by (cases b) (auto simp: fetchDocumentation_def fetchDocumentation_try_def)
qed

lemma sublist_truncateResponse:
  assumes "prefix h doc" "of_nat (length h) \<le> 4 * m"
  shows "sublist h (truncateResponse doc m)"
proof (cases "of_nat (length doc) \<le> 4 * m")
  case True
  with assms(1) show ?thesis by (simp add: truncateResponse_short)
next
  case False
  from assms(2) have "int (length h) \<le> \<lfloor>4 * m\<rfloor>" by (simp add: le_floor_iff)
  then have "length h \<le> nat \<lfloor>4 * m\<rfloor>" by linarith
  with assms(1) have "prefix h (take (nat \<lfloor>4 * m\<rfloor>) doc)" by (auto simp: prefix_def)
  then have "sublist h (take (nat \<lfloor>4 * m\<rfloor>) doc)" by (rule prefix_imp_sublist)
  then have "sublist h (take (nat \<lfloor>4 * m\<rfloor>) doc @ truncation_marker)" by (rule sublist_extend)
  with False show ?thesis by (simp add: truncateResponse_long)
qed

text \<open>
  Where the fetch rejects, the status is not 2xx, or the body cannot be parsed or is
  \<open>null\<close>, the offline text of the topic is returned, truncated as \<open>maxTokens\<close> says, and both
  bindings answer with it as a success; for the topic \<open>setup\<close> it contains the heading.
\<close>

lemma docs_offline_fallback:
  assumes "zod_parse GetNativelinkDocsSchema (Some args) = Inr out"
      and "params = as_GetNativelinkDocsParams out"
      and "fetch_failed (fetch e (docs_request config (topic params) (docs_context params)))"
  shows "\<exists>doc. map_of offline_docs (topic params) = Some doc
           \<and> getNativelinkDocs params e config
               = Inr (JStr (truncateResponse doc (effective_maxTokens params)))
           \<and> stdio_call_tool e config ''get-nativelink-docs'' (Some args)
               = Success (truncateResponse doc (effective_maxTokens params))
           \<and> http_call_tool e config (Some ''get-nativelink-docs'') (Some args)
               = Success (truncateResponse doc (effective_maxTokens params))
           \<and> (topic params = ''setup'' \<longrightarrow>
                sublist ''# Nativelink Cloud Setup Guide'' (truncateResponse doc (effective_maxTokens params)))"
proof -
  from docs_parse_ok [OF assms(1)] assms(2) have valid_topic: "topic params \<in> set DocsTopic"
    and limit: "maxTokens params = None \<or> (\<exists>n. maxTokens params = Some n \<and> 1000 \<le> n)"
    by auto
  from offline_lookup [OF valid_topic] obtain doc where doc: "map_of offline_docs (topic params) = Some doc"
    "getOfflineDocumentation (topic params) (docs_context params) = doc" by blast
  have handler: "getNativelinkDocs params e config
                   = Inr (JStr (truncateResponse doc (effective_maxTokens params)))"
    using fetchDocumentation_failed
        [where f = "fetch e" and config = config and t = "topic params" and c = "docs_context params"]
      assms(3) doc(2)
    by (simp add: getNativelinkDocs_def)
  from limit have "1000 \<le> effective_maxTokens params"
    by (auto simp: effective_maxTokens_def)
  then have room: "of_nat (length ''# Nativelink Cloud Setup Guide'') \<le> 4 * effective_maxTokens params"
    by simp
  have heading: "sublist ''# Nativelink Cloud Setup Guide'' (truncateResponse doc (effective_maxTokens params))"
    if "topic params = ''setup''"
  proof -
    from doc(1) that have "doc = offline_setup" by (simp add: offline_docs_def)
    with setup_heading room show ?thesis by (simp only: sublist_truncateResponse)
  qed
  from handler assms(2) have "getNativelinkDocs (as_GetNativelinkDocsParams out) e config
                   = Inr (JStr (truncateResponse doc (effective_maxTokens params)))"
    by simp
  with docs_dispatch_valid [OF assms(1), of e config]
  have "stdio_call_tool e config ''get-nativelink-docs'' (Some args)
               = Success (truncateResponse doc (effective_maxTokens params))"
    "http_call_tool e config (Some ''get-nativelink-docs'') (Some args)
               = Success (truncateResponse doc (effective_maxTokens params))"
    by simp_all
  with doc(1) handler heading show ?thesis by simp
qed

lemma docs_setup_args_valid:
  "zod_parse GetNativelinkDocsSchema (Some (JObj [(''topic'', JStr ''setup'')]))
     = Inr (Some (JObj [(''topic'', JStr ''setup'')]))"
  by (simp add: zod_parse_def GetNativelinkDocsSchema_def DocsTopic_def)

lemma docs_setup_params:
  "topic (as_GetNativelinkDocsParams (Some (JObj [(''topic'', JStr ''setup'')]))) = ''setup''"
  "docs_context (as_GetNativelinkDocsParams (Some (JObj [(''topic'', JStr ''setup'')]))) = None"
  "effective_maxTokens (as_GetNativelinkDocsParams (Some (JObj [(''topic'', JStr ''setup'')]))) = 5000"
  by (simp_all add: as_GetNativelinkDocsParams_def field_string_def field_number_def
        effective_maxTokens_def)

text \<open>The topic \<open>setup\<close> with the network unreachable.\<close>

lemma docs_offline_fallback_unreachable:
  "fetch_failed (fetch offline_env (docs_request example_config ''setup'' None))
   \<and> stdio_call_tool offline_env example_config ''get-nativelink-docs''
        (Some (JObj [(''topic'', JStr ''setup'')]))
       = Success (truncateResponse offline_setup 5000)
   \<and> http_call_tool offline_env example_config (Some ''get-nativelink-docs'')
        (Some (JObj [(''topic'', JStr ''setup'')]))
       = Success (truncateResponse offline_setup 5000)
   \<and> sublist ''# Nativelink Cloud Setup Guide'' (truncateResponse offline_setup 5000)"
proof -
  let ?args = "JObj [(''topic'', JStr ''setup'')]"
  let ?params = "as_GetNativelinkDocsParams (Some ?args)"
  note params = docs_setup_params
  have failed: "fetch_failed (fetch offline_env (docs_request example_config (topic ?params) (docs_context ?params)))"
    by (simp add: offline_env_def)
  from docs_offline_fallback [OF docs_setup_args_valid refl failed] obtain doc where
    doc: "map_of offline_docs (topic ?params) = Some doc"
    and rest: "stdio_call_tool offline_env example_config ''get-nativelink-docs'' (Some ?args)
               = Success (truncateResponse doc (effective_maxTokens ?params))"
      "http_call_tool offline_env example_config (Some ''get-nativelink-docs'') (Some ?args)
               = Success (truncateResponse doc (effective_maxTokens ?params))"
      "topic ?params = ''setup'' \<longrightarrow>
         sublist ''# Nativelink Cloud Setup Guide'' (truncateResponse doc (effective_maxTokens ?params))"
    by blast
  from doc have "doc = offline_setup" by (simp add: params offline_docs_def)
  with rest failed show ?thesis by (simp add: params)
qed

text \<open>A body that the API answered with status 2xx and that holds no text.\<close>

lemma getNativelinkDocs_without_content:
  assumes "fetch e (docs_request config (topic params) (docs_context params))
             = FetchResponse st msg (BodyJson (JObj kvs))"
      and "response_ok st" and "map_of kvs ''content'' = None"
  shows "getNativelinkDocs params e config
           = Inl (Error ''Cannot read properties of undefined (reading 'length')'')"
  using assms
  by (simp add: getNativelinkDocs_def fetchDocumentation_def fetchDocumentation_try_def)

lemma getNativelinkDocs_number_content:
  assumes "fetch e (docs_request config (topic params) (docs_context params))
             = FetchResponse st msg (BodyJson (JObj kvs))"
      and "response_ok st" and "map_of kvs ''content'' = Some (JNum n)"
  shows "getNativelinkDocs params e config = Inl (Error ''text.substring is not a function'')"
  using assms
  by (simp add: getNativelinkDocs_def fetchDocumentation_def fetchDocumentation_try_def)

text \<open>
  C3. When the documentation API answers a valid call for the topic \<open>setup\<close> with status
  200 and a body that parses to an object without a text under \<open>content\<close> (the empty
  object, or \<open>content = 42\<close>), both bindings answer with the error code \<open>InternalError\<close> and
  the message of a \<open>TypeError\<close>, not with the offline text as a success:
  \<open>fetchDocumentation\<close> returns \<open>data.content\<close> unchecked from inside its \<open>try\<close>, and
  \<open>truncateResponse\<close> throws on it in the handler, outside that \<open>try\<close>.
\<close>

theorem docs_body_without_content_fails:
  "stdio_call_tool (offline_env \<lparr> fetch := (\<lambda>request. FetchResponse 200 ''OK'' (BodyJson (JObj []))) \<rparr>)
       example_config ''get-nativelink-docs'' (Some (JObj [(''topic'', JStr ''setup'')]))
     = Failure InternalError ''Cannot read properties of undefined (reading 'length')''
   \<and> http_call_tool (offline_env \<lparr> fetch := (\<lambda>request. FetchResponse 200 ''OK'' (BodyJson (JObj []))) \<rparr>)
       example_config (Some ''get-nativelink-docs'') (Some (JObj [(''topic'', JStr ''setup'')]))
     = Failure InternalError ''Cannot read properties of undefined (reading 'length')''
   \<and> stdio_call_tool
       (offline_env \<lparr> fetch := (\<lambda>request. FetchResponse 200 ''OK'' (BodyJson (JObj [(''content'', JNum 42)]))) \<rparr>)
       example_config ''get-nativelink-docs'' (Some (JObj [(''topic'', JStr ''setup'')]))
     = Failure InternalError ''text.substring is not a function''
   \<and> http_call_tool
       (offline_env \<lparr> fetch := (\<lambda>request. FetchResponse 200 ''OK'' (BodyJson (JObj [(''content'', JNum 42)]))) \<rparr>)
       example_config (Some ''get-nativelink-docs'') (Some (JObj [(''topic'', JStr ''setup'')]))
     = Failure InternalError ''text.substring is not a function''"
proof -
  let ?args = "JObj [(''topic'', JStr ''setup'')]"
  let ?params = "as_GetNativelinkDocsParams (Some ?args)"
  let ?empty = "offline_env \<lparr> fetch := (\<lambda>request. FetchResponse 200 ''OK'' (BodyJson (JObj []))) \<rparr>"
  let ?number = "offline_env
    \<lparr> fetch := (\<lambda>request. FetchResponse 200 ''OK'' (BodyJson (JObj [(''content'', JNum 42)]))) \<rparr>"
  have ok: "response_ok 200" by (simp add: response_ok_def)
  have "getNativelinkDocs ?params ?empty example_config
          = Inl (Error ''Cannot read properties of undefined (reading 'length')'')"
    using getNativelinkDocs_without_content
        [where e = ?empty and params = ?params and config = example_config
           and st = 200 and msg = "''OK''" and kvs = "[]"] ok
    by simp
  moreover have "getNativelinkDocs ?params ?number example_config
          = Inl (Error ''text.substring is not a function'')"
    using getNativelinkDocs_number_content
        [where e = ?number and params = ?params and config = example_config
           and st = 200 and msg = "''OK''" and kvs = "[(''content'', JNum 42)]" and n = 42] ok
    by simp
  ultimately show ?thesis
    by (simp add: docs_dispatch_valid [OF docs_setup_args_valid])
qed

section \<open>The documentation tool: maxTokens\<close>

lemma maxTokens_default:
  "maxTokens params = None \<Longrightarrow>
     getNativelinkDocs params f config = getNativelinkDocs (params\<lparr>maxTokens := Some 5000\<rparr>) f config"
  by (simp add: getNativelinkDocs_def effective_maxTokens_def)

lemma docs_zparse_fields:
  "zparse GetNativelinkDocsSchema [] (Some (JObj kvs))
     = (fst (zparse (ZEnum DocsTopic) [Key ''topic''] (map_of kvs ''topic''))
        @ fst (zparse (ZOptional ZString) [Key ''context''] (map_of kvs ''context''))
        @ fst (zparse (ZOptional (ZDefault (ZNumber [Min 1000]) (JNum 5000))) [Key ''maxTokens'']
                 (map_of kvs ''maxTokens'')),
        Some (JObj
          ((case snd (zparse (ZEnum DocsTopic) [Key ''topic''] (map_of kvs ''topic'')) of
              None \<Rightarrow> [] | Some j \<Rightarrow> [(''topic'', j)])
           @ (case snd (zparse (ZOptional ZString) [Key ''context''] (map_of kvs ''context'')) of
              None \<Rightarrow> [] | Some j \<Rightarrow> [(''context'', j)])
           @ (case snd (zparse (ZOptional (ZDefault (ZNumber [Min 1000]) (JNum 5000)))
                          [Key ''maxTokens''] (map_of kvs ''maxTokens'')) of
              None \<Rightarrow> [] | Some j \<Rightarrow> [(''maxTokens'', j)]))))"
  unfolding GetNativelinkDocsSchema_def zparse_object zparse_fields_Cons zparse_fields_Nil
  by (simp only: append_Nil append_Nil2 fst_conv snd_conv)

lemma docs_default_same_call:
  assumes "map_of kvs ''maxTokens'' = None"
  shows "stdio_call_tool e config ''get-nativelink-docs'' (Some (JObj kvs))
           = stdio_call_tool e config ''get-nativelink-docs'' (Some (JObj ((''maxTokens'', JNum 5000) # kvs)))"
    and "http_call_tool e api (Some ''get-nativelink-docs'') (Some (JObj kvs))
           = http_call_tool e api (Some ''get-nativelink-docs'') (Some (JObj ((''maxTokens'', JNum 5000) # kvs)))"
proof -
  let ?kvs' = "(''maxTokens'', JNum 5000) # kvs"
  obtain ti tout where t: "zparse (ZEnum DocsTopic) [Key ''topic''] (map_of kvs ''topic'') = (ti, tout)"
    by (cases "zparse (ZEnum DocsTopic) [Key ''topic''] (map_of kvs ''topic'')")
  obtain ci cout where c: "zparse (ZOptional ZString) [Key ''context''] (map_of kvs ''context'') = (ci, cout)"
    by (cases "zparse (ZOptional ZString) [Key ''context''] (map_of kvs ''context'')")
  let ?out = "(case tout of None \<Rightarrow> [] | Some j \<Rightarrow> [(''topic'', j)])
                @ (case cout of None \<Rightarrow> [] | Some j \<Rightarrow> [(''context'', j)])"
  let ?out' = "(case tout of None \<Rightarrow> [] | Some j \<Rightarrow> [(''topic'', j)])
                @ (case cout of None \<Rightarrow> [] | Some j \<Rightarrow> [(''context'', j)])
                @ [(''maxTokens'', JNum 5000)]"
  have absent: "zparse GetNativelinkDocsSchema [] (Some (JObj kvs)) = (ti @ ci, Some (JObj ?out))"
    unfolding docs_zparse_fields using assms t c by simp
  have given: "zparse GetNativelinkDocsSchema [] (Some (JObj ?kvs'))
                 = (ti @ ci, Some (JObj ?out'))"
    unfolding docs_zparse_fields using t c by simp
  have same_fields:
    "topic (as_GetNativelinkDocsParams (Some (JObj ?out')))
       = topic (as_GetNativelinkDocsParams (Some (JObj ?out)))"
    "docs_context (as_GetNativelinkDocsParams (Some (JObj ?out')))
       = docs_context (as_GetNativelinkDocsParams (Some (JObj ?out)))"
    "maxTokens (as_GetNativelinkDocsParams (Some (JObj ?out))) = None"
    "maxTokens (as_GetNativelinkDocsParams (Some (JObj ?out'))) = Some 5000"
    by (simp_all add: as_GetNativelinkDocsParams_def field_string_def field_number_def
          split: option.splits)
  have handler: "getNativelinkDocs (as_GetNativelinkDocsParams (Some (JObj ?out'))) f cfg
           = getNativelinkDocs (as_GetNativelinkDocsParams (Some (JObj ?out))) f cfg" for f cfg
    using same_fields by (simp add: getNativelinkDocs_def effective_maxTokens_def)
  show "stdio_call_tool e config ''get-nativelink-docs'' (Some (JObj kvs))
           = stdio_call_tool e config ''get-nativelink-docs'' (Some (JObj ?kvs'))"
    by (cases "ti @ ci") (simp_all add: stdio_call_tool_def stdio_try_def zod_parse_def absent given handler)
  show "http_call_tool e api (Some ''get-nativelink-docs'') (Some (JObj kvs))
           = http_call_tool e api (Some ''get-nativelink-docs'') (Some (JObj ?kvs'))"
    by (cases "ti @ ci") (simp_all add: http_call_tool_def http_try_def zod_parse_def absent given handler)
qed

lemma maxTokens_entry:
  "issue_entry (ZodIssue [Key ''maxTokens''] ''Number must be greater than or equal to 1000'')
     = ''maxTokens: Number must be greater than or equal to 1000''"
  by (simp add: issue_entry_def)

text \<open>
  C7. For the documentation tool, arguments whose \<open>maxTokens\<close> is a number below 1000 are
  refused by both bindings with \<open>InvalidParams\<close>, the message naming \<open>maxTokens\<close> and its
  minimum; the handler treats parameters without \<open>maxTokens\<close> as it treats the same
  parameters with \<open>maxTokens = 5000\<close>, and so does a call through either binding.
\<close>

theorem docs_maxTokens_minimum_and_default:
  "(map_of kvs ''maxTokens'' = Some (JNum n) \<and> n < 1000 \<longrightarrow>
      (\<exists>msg. stdio_call_tool e config ''get-nativelink-docs'' (Some (JObj kvs)) = Failure InvalidParams msg
         \<and> http_call_tool e api (Some ''get-nativelink-docs'') (Some (JObj kvs)) = Failure InvalidParams msg
         \<and> sublist ''maxTokens: Number must be greater than or equal to 1000'' msg))
   \<and> (maxTokens params = None \<longrightarrow>
        getNativelinkDocs params f config = getNativelinkDocs (params\<lparr>maxTokens := Some 5000\<rparr>) f config)
   \<and> (map_of kvs' ''maxTokens'' = None \<longrightarrow>
        stdio_call_tool e config ''get-nativelink-docs'' (Some (JObj kvs'))
          = stdio_call_tool e config ''get-nativelink-docs'' (Some (JObj ((''maxTokens'', JNum 5000) # kvs')))
        \<and> http_call_tool e api (Some ''get-nativelink-docs'') (Some (JObj kvs'))
          = http_call_tool e api (Some ''get-nativelink-docs'') (Some (JObj ((''maxTokens'', JNum 5000) # kvs'))))"
proof (intro conjI impI)
  assume low: "map_of kvs ''maxTokens'' = Some (JNum n) \<and> n < 1000"
  let ?issues = "fst (zparse GetNativelinkDocsSchema [] (Some (JObj kvs)))"
  from low have mem: "ZodIssue [Key ''maxTokens''] ''Number must be greater than or equal to 1000'' \<in> set ?issues"
    by (simp add: maxTokens_issue)
  then have nonempty: "?issues \<noteq> []" by auto
  have schema: "tool_schema ''get-nativelink-docs'' = Some GetNativelinkDocsSchema"
    by (simp add: tool_schema_def)
  from mem have "''maxTokens: Number must be greater than or equal to 1000'' \<in> set (map issue_entry ?issues)"
    using maxTokens_entry by force
  then have "sublist ''maxTokens: Number must be greater than or equal to 1000''
               (join '', '' (map issue_entry ?issues))"
    by (rule mem_sublist_join)
  then have "sublist ''maxTokens: Number must be greater than or equal to 1000'' (invalid_params_message ?issues)"
    unfolding invalid_params_message_def by (rule sublist_prepend)
  with stdio_call_tool_invalid [OF schema nonempty] http_call_tool_invalid [OF schema nonempty]
  show "\<exists>msg. stdio_call_tool e config ''get-nativelink-docs'' (Some (JObj kvs)) = Failure InvalidParams msg
         \<and> http_call_tool e api (Some ''get-nativelink-docs'') (Some (JObj kvs)) = Failure InvalidParams msg
         \<and> sublist ''maxTokens: Number must be greater than or equal to 1000'' msg"
    by blast
qed (simp_all add: maxTokens_default docs_default_same_call)

theorem docs_maxTokens_minimum_and_default_witness:
  "stdio_call_tool offline_env example_config ''get-nativelink-docs''
     (Some (JObj [(''topic'', JStr ''setup''), (''maxTokens'', JNum 10)]))
     = Failure InvalidParams ''Invalid parameters: maxTokens: Number must be greater than or equal to 1000''
   \<and> http_call_tool offline_env example_config (Some ''get-nativelink-docs'')
     (Some (JObj [(''topic'', JStr ''setup''), (''maxTokens'', JNum 10)]))
     = Failure InvalidParams ''Invalid parameters: maxTokens: Number must be greater than or equal to 1000''
   \<and> stdio_call_tool offline_env example_config ''get-nativelink-docs''
        (Some (JObj [(''topic'', JStr ''setup'')]))
       = stdio_call_tool offline_env example_config ''get-nativelink-docs''
        (Some (JObj [(''maxTokens'', JNum 5000), (''topic'', JStr ''setup'')]))"
proof -
  let ?low = "[(''topic'', JStr ''setup''), (''maxTokens'', JNum 10)]"
  let ?none = "[(''topic'', JStr ''setup'')]"
  note c7 = docs_maxTokens_minimum_and_default
    [where kvs = ?low and n = 10 and kvs' = ?none and e = offline_env and config = example_config
       and api = example_config]
  have low: "map_of ?low ''maxTokens'' = Some (JNum 10) \<and> (10::rat) < 1000" by simp
  have none: "map_of ?none ''maxTokens'' = None" by simp
  have issues: "fst (zparse GetNativelinkDocsSchema [] (Some (JObj ?low)))
                  = [ZodIssue [Key ''maxTokens''] ''Number must be greater than or equal to 1000'']"
    by (simp add: GetNativelinkDocsSchema_def DocsTopic_def show_int_1000)
  from c7 [THEN conjunct1, THEN mp, OF low] obtain msg where
    msg: "stdio_call_tool offline_env example_config ''get-nativelink-docs'' (Some (JObj ?low)) = Failure InvalidParams msg"
      "http_call_tool offline_env example_config (Some ''get-nativelink-docs'') (Some (JObj ?low)) = Failure InvalidParams msg"
    by blast
  have schema: "tool_schema ''get-nativelink-docs'' = Some GetNativelinkDocsSchema"
    by (simp add: tool_schema_def)
  have "stdio_call_tool offline_env example_config ''get-nativelink-docs'' (Some (JObj ?low))
          = Failure InvalidParams ''Invalid parameters: maxTokens: Number must be greater than or equal to 1000''"
    using stdio_call_tool_invalid [OF schema, of "Some (JObj ?low)" offline_env example_config]
    unfolding issues by (simp add: invalid_params_message_def issue_entry_def)
  with msg have "msg = ''Invalid parameters: maxTokens: Number must be greater than or equal to 1000''"
    by simp
  with msg c7 [THEN conjunct2, THEN conjunct2, THEN mp, OF none, THEN conjunct1]
  show ?thesis by simp
qed

section \<open>The build configuration of a Rust project\<close>

lemma sublist_trans: "sublist xs ys \<Longrightarrow> sublist ys zs \<Longrightarrow> sublist xs zs"
  by (rule sublist_order.order_trans)

lemma trim_sublist: "sublist (trim l) l"
proof -
  let ?m = "dropWhile is_js_space l"
  have split: "takeWhile is_js_space (rev ?m) @ dropWhile is_js_space (rev ?m) = rev ?m"
    by (rule takeWhile_dropWhile_id)
  have "?m = rev (rev ?m)" by simp
  also have "\<dots> = rev (takeWhile is_js_space (rev ?m) @ dropWhile is_js_space (rev ?m))"
    by (simp only: split)
  also have "\<dots> = rev (dropWhile is_js_space (rev ?m)) @ rev (takeWhile is_js_space (rev ?m))"
    by (rule rev_append)
  finally have "?m = trim l @ rev (takeWhile is_js_space (rev ?m))"
    by (simp only: trim_def)
  moreover have "l = takeWhile is_js_space l @ ?m" by simp
  ultimately have "l = takeWhile is_js_space l @ trim l @ rev (takeWhile is_js_space (rev ?m))"
    by (simp only:)
  then show ?thesis unfolding sublist_def by blast
qed

lemma sublist_join_line:
  assumes "c \<notin> set pat" "sublist pat (join [c] ls)" "pat \<noteq> []"
  shows "\<exists>l \<in> set ls. sublist pat l"
  using assms
proof (induction "[c]" ls rule: join.induct)
  case 1
  then show ?case by simp
next
  case (2 x)
  then show ?case by simp
next
  case (3 x y ys)
  from 3(3) have "sublist pat (x @ c # join [c] (y # ys))" by simp
  then consider "sublist pat x" | "sublist pat (c # join [c] (y # ys))"
    | xs1 xs2 where "pat = xs1 @ xs2" "suffix xs1 x" "prefix xs2 (c # join [c] (y # ys))"
    unfolding sublist_append by blast
  then show ?case
  proof cases
    case 1
    then show ?thesis by simp
  next
    case 2
    then have "prefix pat (c # join [c] (y # ys)) \<or> sublist pat (join [c] (y # ys))"
      by (simp add: sublist_Cons_right)
    moreover have "\<not> prefix pat (c # join [c] (y # ys))"
      using 3(2,4) by (cases pat) auto
    ultimately have "sublist pat (join [c] (y # ys))" by simp
    with 3 show ?thesis by simp
  next
    case 3
    show ?thesis
    proof (cases xs2)
      case Nil
      with 3 have "suffix pat x" by simp
      then show ?thesis by auto
    next
      case (Cons a as)
      with 3 have "a = c" by simp
      with Cons 3(1) \<open>c \<notin> set pat\<close> show ?thesis by simp
    qed
  qed
qed

lemma sublist_formatBazelrc:
  assumes "l \<in> set lines" "trim l = l" "l \<noteq> []"
  shows "sublist l (formatBazelrc lines)"
proof -
  from assms have "l \<in> set (filter (\<lambda>l. l \<noteq> []) (map trim lines))" by force
  then show ?thesis unfolding formatBazelrc_def by (rule mem_sublist_join)
qed

lemma not_sublist_formatBazelrc:
  assumes "CHR 0x0A \<notin> set pat" "pat \<noteq> []" "\<forall>l \<in> set lines. \<not> sublist pat l"
  shows "\<not> sublist pat (formatBazelrc lines)"
proof
  assume "sublist pat (formatBazelrc lines)"
  with assms(1,2) obtain l where "l \<in> set (filter (\<lambda>l. l \<noteq> []) (map trim lines))" "sublist pat l"
    unfolding formatBazelrc_def by (blast dest: sublist_join_line)
  then obtain l0 where "l0 \<in> set lines" "sublist pat (trim l0)" by auto
  with trim_sublist have "sublist pat l0" by (blast intro: sublist_trans)
  with assms(3) \<open>l0 \<in> set lines\<close> show False by blast
qed

lemma show_nat_digits: "set (show_nat n) \<subseteq> set ''0123456789''"
proof (induction n rule: show_nat.induct)
  case (1 n)
  define D where "D = set ''0123456789''"
  have "n mod 10 < length ''0123456789''" by simp
  then have "''0123456789'' ! (n mod 10) \<in> set ''0123456789''" by (rule nth_mem)
  then have d: "digit_char (n mod 10) \<in> D" by (simp only: digit_char_def D_def)
  have step: "set (show_nat n) = set (if n < 10 then [] else show_nat (n div 10)) \<union> {digit_char (n mod 10)}"
    by (subst show_nat.simps) simp
  show ?case
  proof (cases "n < 10")
    case True
    with d step show ?thesis unfolding D_def [symmetric] by simp
  next
    case False
    from 1 [OF False] have "set (show_nat (n div 10)) \<subseteq> D" by (simp only: D_def)
    with False d step show ?thesis unfolding D_def [symmetric] by simp
  qed
qed

lemma toISOString_chars: "set (toISOString t) \<subseteq> set ''0123456789+-T:.Z''"
proof -
  define S where "S = set ''0123456789+-T:.Z''"
  have digits: "set ''0123456789'' \<subseteq> S" by (simp add: S_def)
  have marks: "CHR ''0'' \<in> S" "CHR ''+'' \<in> S" "CHR ''-'' \<in> S" "CHR ''T'' \<in> S" "CHR '':'' \<in> S"
    "CHR ''.'' \<in> S" "CHR ''Z'' \<in> S"
    by (simp_all add: S_def)
  have pad: "set (padStart k (show_nat n)) \<subseteq> S" for k n
  proof -
    from show_nat_digits [of n] digits have "set (show_nat n) \<subseteq> S" by (rule subset_trans)
    moreover have "set (replicate (k - length (show_nat n)) (CHR ''0'')) \<subseteq> S"
      using marks(1) by (auto simp: set_replicate_conv_if)
    ultimately show ?thesis by (simp add: padStart_def)
  qed
  have "set (toISOString t) \<subseteq> S"
    unfolding toISOString_def by (simp add: pad marks)
  then show ?thesis by (simp only: S_def)
qed

lemma rust_args_valid:
  "zod_parse GetBazelConfigSchema (Some rust_remote_cache_args) = Inr (Some rust_remote_cache_args)"
  by (simp add: zod_parse_def GetBazelConfigSchema_def ProjectType_def rust_remote_cache_args_def)

lemma rust_args_params:
  "as_GetBazelConfigParams (Some rust_remote_cache_args) = rust_remote_cache_params"
  by (simp add: as_GetBazelConfigParams_def rust_remote_cache_args_def rust_remote_cache_params_def
        field_string_def field_strings_def)

lemma rust_lines:
  "generateBazelConfig_lines rust_remote_cache_params date =
     [''# Nativelink Cloud Configuration'',
      ''# Generated for rust project'',
      ''# '' @ toISOString date,
      [],
      ''# IMPORTANT: Get your personalized configuration from https://app.nativelink.com'',
      ''# The configuration below is a template - replace with your actual values from the dashboard'',
      [],
      ''# Remote Cache Configuration'',
      ''build --remote_cache=grpcs://cas-tracemachina-shared.build-faster.nativelink.net'',
      ''build --remote_header=x-nativelink-api-key=YOUR_API_KEY_FROM_APP_NATIVELINK_COM'',
      [],
      ''# Performance Optimizations'',
      ''build --experimental_remote_cache_compression'',
      ''build --experimental_remote_cache_async'',
      ''build --remote_max_connections=200'',
      [],
      ''# rust Specific Configuration'',
      ''build --@rules_rust//rust/settings:pipelined_compilation=True'',
      ''build --@rules_rust//rust/settings:rustfmt_toml=//:rustfmt.toml'',
      [],
      ''# Build Reproducibility'',
      ''build --incompatible_strict_action_env'',
      ''build --action_env=BAZEL_DO_NOT_DETECT_CPP_TOOLCHAIN=1'',
      [],
      ''# Test Configuration'',
      ''test --test_output=errors'',
      ''test --test_summary=detailed'',
      []]"
  by (simp add: generateBazelConfig_lines_def rust_remote_cache_params_def
        getProjectSpecificConfig_def project_configs_def)

lemma timestamp_line_no_java: "\<not> sublist ''java_language_version'' (''# '' @ toISOString date)"
proof
  assume "sublist ''java_language_version'' (''# '' @ toISOString date)"
  then have "set ''java_language_version'' \<subseteq> set (''# '' @ toISOString date)"
    by (rule set_mono_sublist)
  then have "CHR ''j'' \<in> set (''# '' @ toISOString date)" by simp
  then have "CHR ''j'' \<in> set (toISOString date)" by simp
  with toISOString_chars have "CHR ''j'' \<in> set ''0123456789+-T:.Z''" by blast
  then show False by simp
qed

text \<open>
  C8. Calling the build configuration tool with \<open>projectType = rust\<close> and
  \<open>features = [remote_cache]\<close> succeeds in both bindings, at any time of the clock, with a
  text that contains \<open>build --remote_cache=\<close> and \<open>@rules_rust\<close> and does not contain
  \<open>java_language_version\<close>.
\<close>

theorem rust_remote_cache_config:
  "stdio_call_tool e config ''get-bazel-config'' (Some rust_remote_cache_args)
     = Success (generateBazelConfig rust_remote_cache_params (clock e))
   \<and> http_call_tool e api (Some ''get-bazel-config'') (Some rust_remote_cache_args)
     = Success (generateBazelConfig rust_remote_cache_params (clock e))
   \<and> sublist ''build --remote_cache='' (generateBazelConfig rust_remote_cache_params (clock e))
   \<and> sublist ''@rules_rust'' (generateBazelConfig rust_remote_cache_params (clock e))
   \<and> \<not> sublist ''java_language_version'' (generateBazelConfig rust_remote_cache_params (clock e))"
proof -
  let ?lines = "generateBazelConfig_lines rust_remote_cache_params (clock e)"
  let ?cache = "''build --remote_cache=grpcs://cas-tracemachina-shared.build-faster.nativelink.net''"
  let ?rust = "''build --@rules_rust//rust/settings:pipelined_compilation=True''"
  have stdio: "stdio_call_tool e config ''get-bazel-config'' (Some rust_remote_cache_args)
     = Success (generateBazelConfig rust_remote_cache_params (clock e))"
    by (simp add: stdio_call_tool_def stdio_try_def rust_args_valid rust_args_params)
  have "arguments_or_empty (Some rust_remote_cache_args) = rust_remote_cache_args"
    by (simp add: rust_remote_cache_args_def)
  then have http: "http_call_tool e api (Some ''get-bazel-config'') (Some rust_remote_cache_args)
     = Success (generateBazelConfig rust_remote_cache_params (clock e))"
    by (simp add: http_call_tool_def http_try_def rust_args_valid rust_args_params)
  have "?cache \<in> set ?lines" unfolding rust_lines by simp
  moreover have "trim ?cache = ?cache" by (simp add: trim_def is_js_space_def)
  ultimately have "sublist ?cache (formatBazelrc ?lines)" by (intro sublist_formatBazelrc) simp_all
  moreover have "sublist ''build --remote_cache='' ?cache" by (rule prefix_imp_sublist) simp
  ultimately have cache: "sublist ''build --remote_cache='' (formatBazelrc ?lines)"
    by (blast intro: sublist_trans)
  have "?rust \<in> set ?lines" unfolding rust_lines by simp
  moreover have "trim ?rust = ?rust" by (simp add: trim_def is_js_space_def)
  ultimately have "sublist ?rust (formatBazelrc ?lines)" by (intro sublist_formatBazelrc) simp_all
  moreover have "sublist ''@rules_rust'' ?rust" by (simp add: sublist_code(3))
  ultimately have rust: "sublist ''@rules_rust'' (formatBazelrc ?lines)"
    by (blast intro: sublist_trans)
  have "\<forall>l \<in> set ?lines. \<not> sublist ''java_language_version'' l"
    unfolding rust_lines using timestamp_line_no_java [of "clock e"] by (simp add: sublist_code(3))
  then have java: "\<not> sublist ''java_language_version'' (formatBazelrc ?lines)"
    by (intro not_sublist_formatBazelrc) simp_all
  from stdio http cache rust java show ?thesis
    by (simp only: generateBazelConfig_def simp_thms)
qed

end
